theory Spec2Isabelle
  imports Main "HOL-Library.AList" "HOL-Library.Word"
begin

unbundle bit_operations_syntax

section \<open>The pipeline simulator of \<open>SimulationContext.tsx\<close>\<close>

text \<open>
  The development embeds the three components of the simulator: the hazard analyzer
  (\<open>detectHazards\<close>), the execution unit (\<open>executeMIPSInstruction\<close>) and the
  per-cycle transition (\<open>calculateNextState\<close>), together with \<open>parseInstruction\<close>
  and \<open>startSimulation\<close>, which build the first state.

  A JavaScript object used as a dictionary (\<open>Record<K, V>\<close>) is an association list
  with distinct keys: \<open>map_of\<close> reads a property, \<open>AList.update\<close> assigns one (it
  replaces the entry in place or appends a new one), and \<open>map snd\<close> is
  \<open>Object.values\<close>. An exception of the source is the value \<open>Inl TypeError\<close>.
\<close>

subsection \<open>Data model\<close>

datatype error = TypeError

text \<open>
  The stage names \<open>"IF"\<close>, \<open>"ID"\<close>, \<open>"EX"\<close>, \<open>"MEM"\<close> and \<open>"WB"\<close> of the source
  carry the prefix \<open>Stage\<close> here.
\<close>

datatype StageName = StageIF | StageID | StageEX | StageMEM | StageWB

record ForwardingInfo =
  fromIndex :: nat
  toIndex :: nat
  fromStage :: StageName
  toStage :: StageName
  register :: string

subsection \<open>JavaScript numbers and strings\<close>

text \<open>
  A value that the simulator computes with is \<open>undefined\<close>, \<open>NaN\<close> or a number with
  an integral value: \<open>parseInt\<close> and the operators \<open>+\<close>, \<open>-\<close>, the bitwise operators
  and the shifts produce nothing else from such values. \<open>Num n\<close> stands for the double
  of value \<open>n\<close>. A sum, a difference or a parsed number that no double represents
  is rounded to the nearest double, ties to the even significand (\<open>roundDouble\<close>):
  \<open>2^54 - 1\<close> becomes \<open>2^54\<close>. One limit remains: a magnitude of \<open>2^1024\<close> or more,
  which JavaScript turns into \<open>Infinity\<close>, stays a finite number here, so that a
  register file that holds \<open>Infinity\<close> is outside the model (the numbers of that
  size that the operations produce have the 32-bit value 0, as \<open>Infinity\<close> has).
  The text \<open>intToString\<close> of an integer is its exact digit string; it is used for
  indices and register numbers, which are small. Instruction text is ASCII.
\<close>

datatype jsval = Undefined | NaN | Num int

fun digitChar :: "nat \<Rightarrow> char" where
  "digitChar n = ''0123456789abcdefghijklmnopqrstuvwxyz'' ! (n mod 36)"

text \<open>The digits of a number that is not negative, most significant first.\<close>

function digitsOf :: "nat \<Rightarrow> int \<Rightarrow> string" where
  "digitsOf radix n =
     (if radix < 2 \<or> n < int radix then [digitChar (nat n)]
      else digitsOf radix (n div int radix) @ [digitChar (nat (n mod int radix))])"
  by pat_completeness auto
termination
  by (relation "measure (\<lambda>(radix, n). nat n)") (auto intro!: int_div_less_self)

declare digitsOf.simps [simp del]

definition intToString :: "nat \<Rightarrow> int \<Rightarrow> string" where
  "intToString radix n =
     (if n < 0 then ''-'' @ digitsOf radix (- n) else digitsOf radix n)"

text \<open>The number of binary digits of a positive number.\<close>

function bitLength :: "int \<Rightarrow> nat" where
  "bitLength n = (if n \<le> 0 then 0 else Suc (bitLength (n div 2)))"
  by pat_completeness auto
termination
  by (relation "measure nat") auto

declare bitLength.simps [simp del]

text \<open>
  The double nearest to an integer: exact up to \<open>2^53\<close>; beyond, the 53 leading binary
  digits are kept and the \<open>e\<close> digits dropped decide the rounding, a tie going to the
  even significand.
\<close>

definition roundDouble :: "int \<Rightarrow> int" where
  "roundDouble x =
     (if \<bar>x\<bar> \<le> 9007199254740992 then x
      else
        let e = bitLength \<bar>x\<bar> - 53;
            q = \<bar>x\<bar> div 2 ^ e;
            r = \<bar>x\<bar> mod 2 ^ e;
            half = 2 ^ (e - 1);
            q1 = (if r > half \<or> (r = half \<and> odd q) then q + 1 else q)
        in sgn x * (q1 * 2 ^ e))"

text \<open>
  The decimal text of a double beyond \<open>2^53\<close> is the shortest digit string that reads
  back as the double: among the numbers whose last \<open>m\<close> decimal places are 0, the two
  next to \<open>x\<close> are tried, for \<open>m\<close> from the greatest down, and of two that read back
  as \<open>x\<close> the nearer is taken (the one with the even last digit at equal distance).
\<close>

definition decimalCandidate :: "int \<Rightarrow> nat \<Rightarrow> int option" where
  "decimalCandidate x m =
     (let p = 10 ^ m;
          lo = (x div p) * p;
          hi = lo + p;
          okLo = (roundDouble lo = x);
          okHi = (roundDouble hi = x)
      in if okLo \<and> okHi
         then Some (if x - lo < hi - x then lo
                    else if hi - x < x - lo then hi
                    else if even (lo div p) then lo else hi)
         else if okLo then Some lo
         else if okHi then Some hi
         else None)"

fun shortestFrom :: "int \<Rightarrow> nat \<Rightarrow> int" where
  "shortestFrom x 0 = x"
| "shortestFrom x (Suc m) =
     (case decimalCandidate x (Suc m) of Some v \<Rightarrow> v | None \<Rightarrow> shortestFrom x m)"

text \<open>
  The text of a number beyond \<open>2^53\<close> that is not negative: the digits of the shortest
  decimal, or from 22 digits on its significant digits with an exponent, as in
  \<open>1.1805916207174113e+21\<close>.
\<close>

definition largeNumberText :: "int \<Rightarrow> string" where
  "largeNumberText x =
     (let ds = digitsOf 10 (shortestFrom x (length (digitsOf 10 x) - 1));
          significant = rev (dropWhile (\<lambda>c. c = CHR ''0'') (rev ds))
      in if length ds \<le> 21 then ds
         else (case significant of
                 [] \<Rightarrow> ds
               | [c] \<Rightarrow> [c]
               | c # cs \<Rightarrow> c # CHR ''.'' # cs) @
              ''e+'' @ digitsOf 10 (int (length ds) - 1))"

text \<open>
  \<open>v.toString(radix)\<close>, and \<open>${v}\<close> for radix 10. In radix 2 the digits of a double
  are exact.
\<close>

definition jsToString :: "nat \<Rightarrow> jsval \<Rightarrow> string" where
  "jsToString radix v =
     (case v of
        Undefined \<Rightarrow> ''undefined''
      | NaN \<Rightarrow> ''NaN''
      | Num n \<Rightarrow>
          if radix = 10 \<and> 9007199254740992 < \<bar>n\<bar>
          then (if n < 0 then ''-'' else []) @ largeNumberText \<bar>n\<bar>
          else intToString radix n)"

text \<open>\<open>a + b\<close> and \<open>a - b\<close> on numbers; \<open>undefined\<close> and \<open>NaN\<close> give \<open>NaN\<close>.\<close>

definition jsAdd :: "jsval \<Rightarrow> jsval \<Rightarrow> jsval" where
  "jsAdd a b = (case (a, b) of (Num x, Num y) \<Rightarrow> Num (roundDouble (x + y)) | _ \<Rightarrow> NaN)"

definition jsSub :: "jsval \<Rightarrow> jsval \<Rightarrow> jsval" where
  "jsSub a b = (case (a, b) of (Num x, Num y) \<Rightarrow> Num (roundDouble (x - y)) | _ \<Rightarrow> NaN)"

text \<open>\<open>ToInt32\<close>: \<open>undefined\<close> and \<open>NaN\<close> become 0, a number wraps modulo \<open>2^32\<close>.\<close>

definition toInt32 :: "jsval \<Rightarrow> 32 word" where
  "toInt32 v = (case v of Num n \<Rightarrow> word_of_int n | _ \<Rightarrow> 0)"

text \<open>\<open>v >>> 0\<close>.\<close>

definition toUint32 :: "jsval \<Rightarrow> int" where
  "toUint32 v = uint (toInt32 v)"

definition jsAnd :: "jsval \<Rightarrow> jsval \<Rightarrow> jsval" where
  "jsAnd a b = Num (sint (toInt32 a AND toInt32 b))"

definition jsOr :: "jsval \<Rightarrow> jsval \<Rightarrow> jsval" where
  "jsOr a b = Num (sint (toInt32 a OR toInt32 b))"

definition jsNot :: "jsval \<Rightarrow> jsval" where
  "jsNot a = Num (sint (NOT (toInt32 a)))"

definition shiftCount :: "jsval \<Rightarrow> nat" where
  "shiftCount b = unat (toInt32 b AND 31)"

definition jsShiftLeft :: "jsval \<Rightarrow> jsval \<Rightarrow> jsval" where
  "jsShiftLeft a b = Num (sint (push_bit (shiftCount b) (toInt32 a)))"

definition jsShiftRight :: "jsval \<Rightarrow> jsval \<Rightarrow> jsval" where
  "jsShiftRight a b = Num (sint (signed_drop_bit (shiftCount b) (toInt32 a)))"

definition jsShiftRightUnsigned :: "jsval \<Rightarrow> jsval \<Rightarrow> jsval" where
  "jsShiftRightUnsigned a b = Num (uint (drop_bit (shiftCount b) (toInt32 a)))"

definition jsLess :: "jsval \<Rightarrow> jsval \<Rightarrow> bool" where
  "jsLess a b = (case (a, b) of (Num x, Num y) \<Rightarrow> x < y | _ \<Rightarrow> False)"

definition jsStrictEq :: "jsval \<Rightarrow> jsval \<Rightarrow> bool" where
  "jsStrictEq a b = (a = b \<and> a \<noteq> NaN)"

text \<open>\<open>v || 0\<close>: \<open>undefined\<close>, \<open>NaN\<close> and 0 are falsy.\<close>

definition orZero :: "jsval \<Rightarrow> jsval" where
  "orZero v = (if v = Undefined \<or> v = NaN \<or> v = Num 0 then Num 0 else v)"

definition boolNum :: "bool \<Rightarrow> jsval" where
  "boolNum b = (if b then Num 1 else Num 0)"

definition isSpace :: "char \<Rightarrow> bool" where
  "isSpace c = (c \<in> set [CHR '' '', CHR 0x09, CHR 0x0A, CHR 0x0B, CHR 0x0C, CHR 0x0D])"

definition trim :: "string \<Rightarrow> string" where
  "trim s = rev (dropWhile isSpace (rev (dropWhile isSpace s)))"

definition lowerChar :: "char \<Rightarrow> char" where
  "lowerChar c =
     (case map_of (zip ''ABCDEFGHIJKLMNOPQRSTUVWXYZ'' ''abcdefghijklmnopqrstuvwxyz'') c of
        Some l \<Rightarrow> l | None \<Rightarrow> c)"

definition toLowerCase :: "string \<Rightarrow> string" where
  "toLowerCase s = map lowerChar s"

fun indexOf :: "'a \<Rightarrow> 'a list \<Rightarrow> nat option" where
  "indexOf c [] = None"
| "indexOf c (x # xs) = (if x = c then Some 0 else map_option Suc (indexOf c xs))"

definition digitValue :: "char \<Rightarrow> nat option" where
  "digitValue c = indexOf (lowerChar c) ''0123456789abcdefghijklmnopqrstuvwxyz''"

text \<open>
  \<open>parseInt(str, radix)\<close> for the radix arguments the simulator passes: none, 16 and
  2. Leading white space is skipped, a sign is read, \<open>0x\<close> selects radix 16 when no
  other radix is given, and the longest prefix of digits is the value, rounded to a
  double; no digit gives \<open>NaN\<close>.
\<close>

definition parseInt :: "string \<Rightarrow> nat option \<Rightarrow> jsval" where
  "parseInt str radix =
     (let s1 = dropWhile isSpace str;
          negative = (take 1 s1 = ''-'');
          s2 = (if take 1 s1 = ''-'' \<or> take 1 s1 = ''+'' then drop 1 s1 else s1);
          hexPrefix = ((radix = None \<or> radix = Some 16) \<and>
                       (take 2 s2 = ''0x'' \<or> take 2 s2 = ''0X''));
          r = (if hexPrefix then 16 else case radix of Some r \<Rightarrow> r | None \<Rightarrow> 10);
          s3 = (if hexPrefix then drop 2 s2 else s2);
          ds = takeWhile (\<lambda>c. case digitValue c of Some d \<Rightarrow> d < r | None \<Rightarrow> False) s3;
          n = foldl (\<lambda>a c. a * int r + (case digitValue c of Some d \<Rightarrow> int d | None \<Rightarrow> 0)) 0 ds
      in if ds = [] then NaN else Num (roundDouble (if negative then - n else n)))"

text \<open>An operand that the destructuring leaves \<open>undefined\<close> is read as that text.\<close>

definition operandText :: "string option \<Rightarrow> string" where
  "operandText x = (case x of Some s \<Rightarrow> s | None \<Rightarrow> ''undefined'')"

text \<open>\<open>text.replace(/,/g, "").split(" ")\<close>.\<close>

fun splitSpace :: "string \<Rightarrow> string list" where
  "splitSpace [] = [[]]"
| "splitSpace (c # cs) =
     (if c = CHR '' '' then [] # splitSpace cs
      else (case splitSpace cs of [] \<Rightarrow> [[c]] | w # ws \<Rightarrow> (c # w) # ws))"

definition removeCommas :: "string \<Rightarrow> string" where
  "removeCommas s = filter (\<lambda>c. c \<noteq> CHR '','') s"

text \<open>\<open>r.replace('$', '')\<close> removes the first dollar sign.\<close>

definition stripDollar :: "string \<Rightarrow> string" where
  "stripDollar r = remove1 (CHR ''$'') r"

definition normalizeRegister :: "string \<Rightarrow> string" where
  "normalizeRegister reg =
     (let r = trim (toLowerCase reg) in if take 1 r = ''$'' then r else ''$'' @ r)"

text \<open>The register names, keyed by the decimal text of the register number.\<close>

definition regMap :: "(string \<times> string) list" where
  "regMap =
    [(''0'', ''zero''), (''1'', ''at''), (''2'', ''v0''), (''3'', ''v1''),
     (''4'', ''a0''), (''5'', ''a1''), (''6'', ''a2''), (''7'', ''a3''),
     (''8'', ''t0''), (''9'', ''t1''), (''10'', ''t2''), (''11'', ''t3''),
     (''12'', ''t4''), (''13'', ''t5''), (''14'', ''t6''), (''15'', ''t7''),
     (''16'', ''s0''), (''17'', ''s1''), (''18'', ''s2''), (''19'', ''s3''),
     (''20'', ''s4''), (''21'', ''s5''), (''22'', ''s6''), (''23'', ''s7''),
     (''24'', ''t8''), (''25'', ''t9''), (''26'', ''k0''), (''27'', ''k1''),
     (''28'', ''gp''), (''29'', ''sp''), (''30'', ''fp''), (''31'', ''ra'')]"

text \<open>
  \<open>regMap[n.toString()]\<close> inside a template literal: a missing key prints as
  \<open>undefined\<close>.
\<close>

definition regMapText :: "int \<Rightarrow> string" where
  "regMapText n =
     (case map_of regMap (intToString 10 n) of Some s \<Rightarrow> s | None \<Rightarrow> ''undefined'')"

subsection \<open>The execution unit\<close>

type_synonym registerFile = "(string \<times> jsval) list"
type_synonym memoryWords = "(int \<times> jsval) list"

text \<open>Reading a property that is missing yields \<open>undefined\<close>.\<close>

definition readProp :: "('k \<times> jsval) list \<Rightarrow> 'k \<Rightarrow> jsval" where
  "readProp obj k = (case map_of obj k of Some v \<Rightarrow> v | None \<Rightarrow> Undefined)"

definition getRegName :: "jsval \<Rightarrow> string" where
  "getRegName regNum =
     ''$'' @ (case map_of regMap (jsToString 10 regNum) of
                Some s \<Rightarrow> s
              | None \<Rightarrow> ''r'' @ jsToString 10 regNum)"

definition getForwardedValue ::
  "ForwardingInfo list \<Rightarrow> registerFile \<Rightarrow> StageName \<Rightarrow> jsval \<Rightarrow> jsval \<Rightarrow> jsval" where
  "getForwardedValue forwardings registers stage regNum defaultValue =
     (let regName = getRegName regNum in
      case find (\<lambda>f. register f = regName \<and> toStage f = stage) forwardings of
        Some forwarding \<Rightarrow> readProp registers regName
      | None \<Rightarrow> defaultValue)"

text \<open>
  The regular expression \<open>/^(-?\d+)\(\$(\w+)\)$/\<close>: the two captured groups, or
  \<open>None\<close> when the text does not match. The character after each repetition is not in
  its class, so the greedy match is the only one.
\<close>

definition isDigit :: "char \<Rightarrow> bool" where
  "isDigit c = (c \<in> set ''0123456789'')"

definition isWordChar :: "char \<Rightarrow> bool" where
  "isWordChar c =
     (c \<in> set ''abcdefghijklmnopqrstuvwxyzABCDEFGHIJKLMNOPQRSTUVWXYZ0123456789_'')"

definition matchOffsetBase :: "string \<Rightarrow> (string \<times> string) option" where
  "matchOffsetBase s =
     (let sign = (if take 1 s = ''-'' then ''-'' else []);
          s1 = drop (length sign) s;
          ds = takeWhile isDigit s1;
          s2 = dropWhile isDigit s1;
          ws = takeWhile isWordChar (drop 2 s2);
          s3 = dropWhile isWordChar (drop 2 s2)
      in if ds \<noteq> [] \<and> take 2 s2 = ''($'' \<and> ws \<noteq> [] \<and> s3 = '')''
         then Some (sign @ ds, ws) else None)"

text \<open>
  The cases of the EX stage repeat three shapes, which the model names. A method call
  on an operand that the destructuring left \<open>undefined\<close> raises a \<open>TypeError\<close>.

  \<open>execR3\<close>: \<open>[rd, rs, rt] = operands.map(normalize)\<close>, two forwarded reads, one write
  (\<open>add\<close>, \<open>and\<close>, \<open>or\<close>, \<open>slt\<close>, \<open>sltu\<close>, \<open>sub\<close>, \<open>nor\<close>).
\<close>

definition execR3 ::
  "(jsval \<Rightarrow> jsval \<Rightarrow> jsval) \<Rightarrow> string list \<Rightarrow> registerFile \<Rightarrow> StageName
     \<Rightarrow> ForwardingInfo list \<Rightarrow> error + registerFile" where
  "execR3 f operands registers stage forwardings =
     (case map (\<lambda>r. normalizeRegister (stripDollar r)) operands of
        rd # rs # rt # rest \<Rightarrow>
          (let rsValue = getForwardedValue forwardings registers stage
                           (parseInt (stripDollar rs) None) (readProp registers rs);
               rtValue = getForwardedValue forwardings registers stage
                           (parseInt (stripDollar rt) None) (readProp registers rt)
           in Inr (AList.update rd (f rsValue rtValue) registers))
      | _ \<Rightarrow> Inl TypeError)"

text \<open>
  \<open>execI\<close>: a destination, a source register and an immediate text, one forwarded
  read, one write (\<open>addi\<close>, \<open>andi\<close>, \<open>ori\<close>, \<open>slti\<close>, \<open>sltiu\<close>, and \<open>sll\<close>, \<open>srl\<close>
  with the shift amount).
\<close>

definition execI ::
  "(jsval \<Rightarrow> jsval \<Rightarrow> jsval) \<Rightarrow> string list \<Rightarrow> registerFile \<Rightarrow> StageName
     \<Rightarrow> ForwardingInfo list \<Rightarrow> error + registerFile" where
  "execI f operands registers stage forwardings =
     (case operands of
        rt # rs # rest \<Rightarrow>
          (let rtNorm = normalizeRegister (stripDollar rt);
               rsNorm = normalizeRegister (stripDollar rs);
               immValue = parseInt (operandText (case rest of [] \<Rightarrow> None | x # _ \<Rightarrow> Some x)) None;
               rsValue = getForwardedValue forwardings registers stage
                           (parseInt (stripDollar rs) None) (readProp registers rsNorm)
           in Inr (AList.update rtNorm (f rsValue immValue) registers))
      | _ \<Rightarrow> Inl TypeError)"

text \<open>
  \<open>execBranch\<close>: \<open>beq\<close> and \<open>bne\<close>; the new program counter is \<open>undefined\<close> when the
  branch is not taken.
\<close>

definition execBranch ::
  "(jsval \<Rightarrow> jsval \<Rightarrow> bool) \<Rightarrow> string list \<Rightarrow> registerFile \<Rightarrow> jsval \<Rightarrow> StageName
     \<Rightarrow> ForwardingInfo list \<Rightarrow> error + jsval" where
  "execBranch taken operands registers PC stage forwardings =
     (case operands of
        rs # rt # rest \<Rightarrow>
          (let rsNorm = normalizeRegister (stripDollar rs);
               rtNorm = normalizeRegister (stripDollar rt);
               rsValue = getForwardedValue forwardings registers stage
                           (parseInt (stripDollar rs) None) (readProp registers rsNorm);
               rtValue = getForwardedValue forwardings registers stage
                           (parseInt (stripDollar rt) None) (readProp registers rtNorm);
               offset = operandText (case rest of [] \<Rightarrow> None | x # _ \<Rightarrow> Some x)
           in if taken rsValue rtValue
              then Inr (jsAdd (jsAdd PC (Num 1)) (parseInt offset None))
              else Inr Undefined)
      | _ \<Rightarrow> Inl TypeError)"

text \<open>The \<open>switch (op)\<close> of the EX stage: the new register file and the new program counter.\<close>

definition execEX ::
  "string \<Rightarrow> string list \<Rightarrow> registerFile \<Rightarrow> jsval \<Rightarrow> StageName \<Rightarrow> ForwardingInfo list
     \<Rightarrow> error + (registerFile \<times> jsval)" where
  "execEX op operands registers PC stage forwardings =
     (let commit = (\<lambda>r. case r of Inl e \<Rightarrow> Inl e | Inr regs \<Rightarrow> Inr (regs, Undefined));
          redirect = (\<lambda>r. case r of Inl e \<Rightarrow> Inl e | Inr pc \<Rightarrow> Inr (registers, pc));
          target = operandText (case operands of [] \<Rightarrow> None | x # _ \<Rightarrow> Some x)
      in
      if op = ''add'' \<or> op = ''addu'' then commit (execR3 jsAdd operands registers stage forwardings)
      else if op = ''addi'' \<or> op = ''addiu'' then commit (execI jsAdd operands registers stage forwardings)
      else if op = ''and'' then commit (execR3 jsAnd operands registers stage forwardings)
      else if op = ''andi'' then commit (execI jsAnd operands registers stage forwardings)
      else if op = ''or'' then commit (execR3 jsOr operands registers stage forwardings)
      else if op = ''ori'' then commit (execI jsOr operands registers stage forwardings)
      else if op = ''slt'' then
        commit (execR3 (\<lambda>a b. boolNum (jsLess a b)) operands registers stage forwardings)
      else if op = ''slti'' then
        commit (execI (\<lambda>a b. boolNum (jsLess a b)) operands registers stage forwardings)
      else if op = ''sltiu'' then
        commit (execI (\<lambda>a b. boolNum (toUint32 a < toUint32 b)) operands registers stage forwardings)
      else if op = ''sltu'' then
        commit (execR3 (\<lambda>a b. boolNum (toUint32 a < toUint32 b)) operands registers stage forwardings)
      else if op = ''sll'' then commit (execI jsShiftLeft operands registers stage forwardings)
      else if op = ''srl'' then
        commit (execI jsShiftRightUnsigned operands registers stage forwardings)
      else if op = ''sub'' \<or> op = ''subu'' then
        commit (execR3 jsSub operands registers stage forwardings)
      else if op = ''nor'' then
        commit (execR3 (\<lambda>a b. jsNot (jsOr a b)) operands registers stage forwardings)
      else if op = ''beq'' then
        redirect (execBranch jsStrictEq operands registers PC stage forwardings)
      else if op = ''bne'' then
        redirect (execBranch (\<lambda>a b. \<not> jsStrictEq a b) operands registers PC stage forwardings)
      else if op = ''j'' then
        Inr (registers, jsShiftRight (parseInt target (Some 16)) (Num 2))
      else if op = ''jal'' then
        Inr (AList.update ''$ra'' (jsAdd PC (Num 2)) registers,
             jsShiftRight (parseInt target (Some 16)) (Num 2))
      else if op = ''jr'' then
        (case operands of
           [] \<Rightarrow> Inl TypeError
         | rs # rest \<Rightarrow>
             (let rsNorm = normalizeRegister (stripDollar rs);
                  rsValue = getForwardedValue forwardings registers stage
                              (parseInt (stripDollar rs) None) (readProp registers rsNorm)
              in Inr (registers, jsShiftRight rsValue (Num 2))))
      else if op = ''lui'' then
        (case operands of
           [] \<Rightarrow> Inl TypeError
         | rt # rest \<Rightarrow>
             (let rtNorm = normalizeRegister (stripDollar rt);
                  immediate = operandText (case rest of [] \<Rightarrow> None | x # _ \<Rightarrow> Some x)
              in Inr (AList.update rtNorm (jsShiftLeft (parseInt immediate None) (Num 16)) registers,
                      Undefined)))
      else Inr (registers, Undefined))"

text \<open>
  The start of both groups of the MEM stage: the operand \<open>rt\<close>, its normalised name
  and the address \<open>(baseValue + offset) >>> 0\<close>; \<open>Inr None\<close> when the text
  \<open>offset(base)\<close> does not match (the effect is skipped).
\<close>

definition memOperands ::
  "string list \<Rightarrow> registerFile \<Rightarrow> StageName \<Rightarrow> ForwardingInfo list
     \<Rightarrow> error + (string \<times> string \<times> int) option" where
  "memOperands operands registers stage forwardings =
     (case operands of
        [] \<Rightarrow> Inl TypeError
      | rt # rest \<Rightarrow>
          (let rtNorm = normalizeRegister (stripDollar rt);
               offsetAndBase = operandText (case rest of [] \<Rightarrow> None | x # _ \<Rightarrow> Some x)
           in case matchOffsetBase offsetAndBase of
                None \<Rightarrow> Inr None
              | Some (offsetStr, baseReg) \<Rightarrow>
                  (let offset = parseInt offsetStr None;
                       baseRegNorm = normalizeRegister baseReg;
                       baseValue = getForwardedValue forwardings registers stage
                                     (parseInt (stripDollar baseReg) None)
                                     (readProp registers baseRegNorm);
                       address = toUint32 (jsAdd baseValue offset)
                   in Inr (Some (rt, rtNorm, address)))))"

text \<open>The \<open>switch (op)\<close> of the MEM stage: the new register file and the new memory.\<close>

definition execMEM ::
  "string \<Rightarrow> string list \<Rightarrow> registerFile \<Rightarrow> memoryWords \<Rightarrow> StageName \<Rightarrow> ForwardingInfo list
     \<Rightarrow> error + (registerFile \<times> memoryWords)" where
  "execMEM op operands registers memory stage forwardings =
     (let valueToStore = (\<lambda>rt rtNorm. getForwardedValue forwardings registers stage
                            (parseInt (stripDollar rt) None) (readProp registers rtNorm))
      in
      if op = ''lw'' \<or> op = ''sw'' then
        (case memOperands operands registers stage forwardings of
           Inl e \<Rightarrow> Inl e
         | Inr None \<Rightarrow> Inr (registers, memory)
         | Inr (Some (rt, rtNorm, address)) \<Rightarrow>
             if address < 0 \<or> address \<ge> 32 then Inr (registers, memory)
             else if op = ''lw''
             then Inr (AList.update rtNorm (orZero (readProp memory address)) registers, memory)
             else Inr (registers, AList.update address (valueToStore rt rtNorm) memory))
      else if op = ''lbu'' \<or> op = ''lhu'' \<or> op = ''ll'' \<or> op = ''sb'' \<or> op = ''sh'' \<or> op = ''sc'' then
        (case memOperands operands registers stage forwardings of
           Inl e \<Rightarrow> Inl e
         | Inr None \<Rightarrow> Inr (registers, memory)
         | Inr (Some (rt, rtNorm, address)) \<Rightarrow>
             if address < 0 \<or> address > 31 then Inr (registers, memory)
             else if op = ''lbu''
             then Inr (AList.update rtNorm (jsAnd (orZero (readProp memory address)) (Num 255))
                         registers, memory)
             else if op = ''lhu''
             then Inr (AList.update rtNorm (jsAnd (orZero (readProp memory address)) (Num 65535))
                         registers, memory)
             else if op = ''ll''
             then Inr (AList.update rtNorm (orZero (readProp memory address)) registers, memory)
             else if op = ''sb''
             then Inr (registers,
                       AList.update address (jsAnd (valueToStore rt rtNorm) (Num 255)) memory)
             else if op = ''sh''
             then Inr (registers,
                       AList.update address (jsAnd (valueToStore rt rtNorm) (Num 65535)) memory)
             else Inr (AList.update rtNorm (Num 1) registers,
                       AList.update address (valueToStore rt rtNorm) memory))
      else Inr (registers, memory))"

text \<open>
  \<open>executeMIPSInstruction\<close>. The decoder \<open>translateInstructionToMIPS\<close> of
  \<open>Converter\<close> is a parameter. The result is the register file and the memory after
  the call and the returned program counter (\<open>Undefined\<close> when the source returns
  none); \<open>currentCycle\<close> is only logged.
\<close>

definition executeMIPSInstruction ::
  "(string \<Rightarrow> string) \<Rightarrow> string \<Rightarrow> registerFile \<Rightarrow> memoryWords \<Rightarrow> jsval \<Rightarrow> StageName
     \<Rightarrow> ForwardingInfo list \<Rightarrow> int \<Rightarrow> error + (registerFile \<times> memoryWords \<times> jsval)" where
  "executeMIPSInstruction translateInstructionToMIPS hexInstruction registers memory PC stage
      forwardings currentCycle =
     (let mipsInstruction = translateInstructionToMIPS hexInstruction;
          parts = splitSpace (removeCommas mipsInstruction);
          op = (case parts of [] \<Rightarrow> [] | x # _ \<Rightarrow> x);
          operands = drop 1 parts;
          staged =
            (case stage of
               StageEX \<Rightarrow>
                 (case execEX op operands registers PC stage forwardings of
                    Inl e \<Rightarrow> Inl e
                  | Inr (regs, newPC) \<Rightarrow> Inr (regs, memory, newPC))
             | StageMEM \<Rightarrow>
                 (case execMEM op operands registers memory stage forwardings of
                    Inl e \<Rightarrow> Inl e
                  | Inr (regs, mem) \<Rightarrow> Inr (regs, mem, Undefined))
             | _ \<Rightarrow> Inr (registers, memory, Undefined))
      in case staged of
           Inl e \<Rightarrow> Inl e
         | Inr (regs, mem, newPC) \<Rightarrow> Inr (AList.update ''$zero'' (Num 0) regs, mem, newPC))"

text \<open>An edge of the list answers the fetch of register number \<open>regNum\<close> in \<open>stage\<close>.\<close>

definition edgeFound :: "ForwardingInfo list \<Rightarrow> StageName \<Rightarrow> jsval \<Rightarrow> bool" where
  "edgeFound forwardings stage regNum =
     (find (\<lambda>f. register f = getRegName regNum \<and> toStage f = stage) forwardings \<noteq> None)"

subsection \<open>The hazard analyzer\<close>

datatype InstructionType = R | I | J

datatype HazardType = RAW | WAW | NONE

record RegisterUsage =
  rs :: int
  rt :: int
  rd :: int
  opcode :: int
  funct :: int
  type :: InstructionType
  isLoad :: bool
  isStore :: bool

record HazardInfo =
  hazardType :: HazardType
  description :: string
  canForward :: bool
  stallCycles :: int

type_synonym hazardTable = "(nat \<times> HazardInfo) list"
type_synonym forwardingTable = "(nat \<times> ForwardingInfo list) list"
type_synonym stallTable = "(nat \<times> int) list"
type_synonym tables = "hazardTable \<times> forwardingTable \<times> stallTable"

text \<open>
  The RAW test of one pair: the flag \<open>hasRawHazard\<close> and the text \<open>hazardRegister\<close>.
\<close>

definition rawHazard :: "RegisterUsage \<Rightarrow> RegisterUsage \<Rightarrow> bool \<times> string" where
  "rawHazard currentInst prevInst =
     (if rs currentInst \<noteq> 0 \<and> rs currentInst = rd prevInst
      then (True, ''rs($'' @ regMapText (rs currentInst) @ '')'')
      else if rt currentInst \<noteq> 0 \<and> rt currentInst = rd prevInst \<and>
              (isStore currentInst \<or> (\<not> isLoad currentInst \<and> type currentInst \<noteq> I))
      then (True, ''rt($'' @ regMapText (rt currentInst) @ '')'')
      else (False, ''''))"

text \<open>
  \<open>forwardings[i] = [...forwardings[i], edge]\<close>: spreading a missing entry raises.
\<close>

definition appendEdge :: "nat \<Rightarrow> ForwardingInfo \<Rightarrow> forwardingTable \<Rightarrow> error + forwardingTable" where
  "appendEdge i e fw =
     (case map_of fw i of
        None \<Rightarrow> Inl TypeError
      | Some es \<Rightarrow> Inr (AList.update i (es @ [e]) fw))"

text \<open>The branch taken when \<open>hasRawHazard\<close> holds.\<close>

definition recordRaw ::
  "bool \<Rightarrow> string \<Rightarrow> RegisterUsage \<Rightarrow> nat \<Rightarrow> nat \<Rightarrow> tables \<Rightarrow> error + tables" where
  "recordRaw forwardingEnabled hazardRegister prevInst i j T =
     (case T of (hz, fw, st) \<Rightarrow>
      let distance = int i - int j in
      if isLoad prevInst then
        (if distance = 1 then
           (let hz1 = AList.update i
                  \<lparr>hazardType = RAW,
                   description = ''Load-use hazard: '' @ hazardRegister @
                     '' depends on lw in instruction '' @ intToString 10 (int j),
                   canForward = forwardingEnabled,
                   stallCycles = (if forwardingEnabled then 0 else 1)\<rparr> hz;
                st1 = AList.update i (if forwardingEnabled then 0 else 1) st
            in if forwardingEnabled then
                 (case appendEdge i
                    \<lparr>fromIndex = j, toIndex = i, fromStage = StageMEM, toStage = StageEX,
                     register = ''$'' @ regMapText (rd prevInst)\<rparr> fw of
                    Inl e \<Rightarrow> Inl e
                  | Inr fw1 \<Rightarrow> Inr (hz1, fw1, st1))
               else Inr (hz1, fw, st1))
         else Inr T)
      else if forwardingEnabled then
        (let hz1 = AList.update i
               \<lparr>hazardType = RAW,
                description = ''RAW hazard: '' @ hazardRegister @
                  '' depends on instruction '' @ intToString 10 (int j) @ '' (forwarded)'',
                canForward = True,
                stallCycles = 0\<rparr> hz
         in case appendEdge i
              \<lparr>fromIndex = j, toIndex = i,
               fromStage = (if distance = 1 then StageEX else StageMEM), toStage = StageEX,
               register = ''$'' @ regMapText (rd prevInst)\<rparr> fw of
              Inl e \<Rightarrow> Inl e
            | Inr fw1 \<Rightarrow> Inr (hz1, fw1, st))
      else
        Inr (AList.update i
               \<lparr>hazardType = RAW,
                description = ''RAW hazard: '' @ hazardRegister @
                  '' depends on instruction '' @ intToString 10 (int j) @ '' (no forwarding)'',
                canForward = False,
                stallCycles = (if distance = 1 then 2 else 1)\<rparr> hz,
             fw,
             AList.update i (if distance = 1 then 2 else 1) st))"

text \<open>The body of the inner loop, for the destination \<open>i\<close> and the producer \<open>j\<close>.\<close>

definition scanProducer ::
  "bool \<Rightarrow> RegisterUsage \<Rightarrow> RegisterUsage \<Rightarrow> nat \<Rightarrow> nat \<Rightarrow> tables \<Rightarrow> error + tables" where
  "scanProducer forwardingEnabled currentInst prevInst i j T =
     (if rd prevInst = 0 \<and> \<not> isLoad prevInst then Inr T
      else
        (let hasRawHazard = fst (rawHazard currentInst prevInst);
             hazardRegister = snd (rawHazard currentInst prevInst)
         in case (if hasRawHazard
                  then recordRaw forwardingEnabled hazardRegister prevInst i j T
                  else Inr T) of
              Inl e \<Rightarrow> Inl e
            | Inr (hz, fw, st) \<Rightarrow>
                if rd currentInst \<noteq> 0 \<and> rd currentInst = rd prevInst \<and> \<not> hasRawHazard
                then Inr (AList.update i
                            \<lparr>hazardType = WAW,
                             description = ''WAW hazard: Both instructions write to $'' @
                               regMapText (rd currentInst),
                             canForward = True,
                             stallCycles = 0\<rparr> hz,
                          fw, st)
                else Inr (hz, fw, st)))"

text \<open>
  The inner loop \<open>for (j = i - 1; j >= 0 && i - j <= 3; j--)\<close> visits the producers
  \<open>producers i\<close> in this order; reading \<open>registerUsage[j].rd\<close> of a missing entry raises.
\<close>

definition producers :: "nat \<Rightarrow> nat list" where
  "producers i = rev [i - 3 ..< i]"

fun scanProducers ::
  "bool \<Rightarrow> (nat \<times> RegisterUsage) list \<Rightarrow> RegisterUsage \<Rightarrow> nat \<Rightarrow> nat list \<Rightarrow> tables
     \<Rightarrow> error + tables" where
  "scanProducers forwardingEnabled registerUsage currentInst i [] T = Inr T"
| "scanProducers forwardingEnabled registerUsage currentInst i (j # js) T =
     (case map_of registerUsage j of
        None \<Rightarrow> Inl TypeError
      | Some prevInst \<Rightarrow>
          (case scanProducer forwardingEnabled currentInst prevInst i j T of
             Inl e \<Rightarrow> Inl e
           | Inr T1 \<Rightarrow> scanProducers forwardingEnabled registerUsage currentInst i js T1))"

text \<open>The outer loop over the destinations \<open>i = 1, ..., length instructions - 1\<close>.\<close>

fun scanInstructions ::
  "bool \<Rightarrow> (nat \<times> RegisterUsage) list \<Rightarrow> nat list \<Rightarrow> tables \<Rightarrow> error + tables" where
  "scanInstructions forwardingEnabled registerUsage [] T = Inr T"
| "scanInstructions forwardingEnabled registerUsage (i # is) T =
     (case map_of registerUsage i of
        None \<Rightarrow> Inl TypeError
      | Some currentInst \<Rightarrow>
          if type currentInst = J
          then scanInstructions forwardingEnabled registerUsage is T
          else
            (case scanProducers forwardingEnabled registerUsage currentInst i (producers i) T of
               Inl e \<Rightarrow> Inl e
             | Inr T1 \<Rightarrow> scanInstructions forwardingEnabled registerUsage is T1))"

definition noHazard :: HazardInfo where
  "noHazard = \<lparr>hazardType = NONE, description = ''No hazard'', canForward = False,
               stallCycles = 0\<rparr>"

definition initTables :: "nat \<Rightarrow> tables" where
  "initTables n =
     fold (\<lambda>index (hz, fw, st).
             (AList.update index noHazard hz, AList.update index [] fw,
              AList.update index 0 st))
          [0 ..< n] ([], [], [])"

definition detectHazards ::
  "string list \<Rightarrow> (nat \<times> RegisterUsage) list \<Rightarrow> bool \<Rightarrow> bool \<Rightarrow> error + tables" where
  "detectHazards instructions registerUsage forwardingEnabled stallsEnabled =
     (let T0 = initTables (length instructions) in
      if \<not> stallsEnabled then Inr T0
      else scanInstructions forwardingEnabled registerUsage [1 ..< length instructions] T0)"

text \<open>
  What the pair \<open>(i, j)\<close> writes for the destination \<open>i\<close>: the loop body run on
  tables that are empty but for an empty edge list of \<open>i\<close>, and the hazard record and
  the stall entry it leaves for \<open>i\<close>, if any.
\<close>

definition pairTables ::
  "bool \<Rightarrow> RegisterUsage \<Rightarrow> RegisterUsage \<Rightarrow> nat \<Rightarrow> nat \<Rightarrow> error + tables" where
  "pairTables forwardingEnabled currentInst prevInst i j =
     scanProducer forwardingEnabled currentInst prevInst i j ([], [(i, [])], [])"

definition pairHazard ::
  "bool \<Rightarrow> RegisterUsage \<Rightarrow> RegisterUsage \<Rightarrow> nat \<Rightarrow> nat \<Rightarrow> HazardInfo option" where
  "pairHazard forwardingEnabled currentInst prevInst i j =
     (case pairTables forwardingEnabled currentInst prevInst i j of
        Inl e \<Rightarrow> None
      | Inr (hz, fw, st) \<Rightarrow> map_of hz i)"

definition pairStall ::
  "bool \<Rightarrow> RegisterUsage \<Rightarrow> RegisterUsage \<Rightarrow> nat \<Rightarrow> nat \<Rightarrow> int option" where
  "pairStall forwardingEnabled currentInst prevInst i j =
     (case pairTables forwardingEnabled currentInst prevInst i j of
        Inl e \<Rightarrow> None
      | Inr (hz, fw, st) \<Rightarrow> map_of st i)"


subsection \<open>Decoding the register usage\<close>

definition padStart32 :: "string \<Rightarrow> string" where
  "padStart32 s = replicate (32 - length s) (CHR ''0'') @ s"

text \<open>
  \<open>parseInt(binary.substring(a, b), 2)\<close>. The text \<open>binary\<close> is made of binary digits,
  of a minus sign followed by a digit 1, or of zeros followed by \<open>NaN\<close> in its last
  three places, and no field starts in these: a field always parses to a number.
\<close>

definition binaryField :: "string \<Rightarrow> nat \<Rightarrow> nat \<Rightarrow> int" where
  "binaryField binary a b =
     (case parseInt (take (b - a) (drop a binary)) (Some 2) of Num n \<Rightarrow> n | _ \<Rightarrow> 0)"

definition parseInstruction :: "string \<Rightarrow> RegisterUsage" where
  "parseInstruction hexInstruction =
     (let binary = padStart32 (jsToString 2 (parseInt hexInstruction (Some 16)));
          opcode' = binaryField binary 0 6;
          rs' = binaryField binary 6 11;
          rt' = binaryField binary 11 16
      in
      if opcode' = 0 then
        \<lparr>rs = rs', rt = rt', rd = binaryField binary 16 21, opcode = opcode',
         funct = binaryField binary 26 32, type = R, isLoad = False, isStore = False\<rparr>
      else if opcode' = 2 \<or> opcode' = 3 then
        \<lparr>rs = rs', rt = rt', rd = (if opcode' = 3 then 31 else 0), opcode = opcode',
         funct = 0, type = J, isLoad = False, isStore = False\<rparr>
      else if opcode' \<in> set [32, 33, 35, 36, 37, 48] then
        \<lparr>rs = rs', rt = rt', rd = rt', opcode = opcode', funct = 0, type = I,
         isLoad = True, isStore = False\<rparr>
      else if opcode' \<in> set [40, 41, 43, 56] then
        \<lparr>rs = rs', rt = rt', rd = 0, opcode = opcode', funct = 0, type = I,
         isLoad = False, isStore = True\<rparr>
      else if opcode' \<in> set [8, 9, 12, 13, 14, 15] then
        \<lparr>rs = rs', rt = rt', rd = rt', opcode = opcode', funct = 0, type = I,
         isLoad = False, isStore = False\<rparr>
      else if opcode' = 15 then
        \<lparr>rs = rs', rt = rt', rd = rt', opcode = opcode', funct = 0, type = I,
         isLoad = False, isStore = False\<rparr>
      else
        \<lparr>rs = rs', rt = rt', rd = 0, opcode = opcode', funct = 0, type = I,
         isLoad = False, isStore = False\<rparr>)"

subsection \<open>The simulation state and the transition\<close>

definition initialRegisters :: registerFile where
  "initialRegisters =
    [(''$zero'', Num 0), (''$at'', Num 0), (''$v0'', Num 0), (''$v1'', Num 0),
     (''$a0'', Num 0), (''$a1'', Num 0), (''$a2'', Num 0), (''$a3'', Num 0),
     (''$t0'', Num 0), (''$t1'', Num 0), (''$t2'', Num 0), (''$t3'', Num 0),
     (''$t4'', Num 0), (''$t5'', Num 0), (''$t6'', Num 0), (''$t7'', Num 0),
     (''$s0'', Num 0), (''$s1'', Num 0), (''$s2'', Num 0), (''$s3'', Num 0),
     (''$s4'', Num 0), (''$s5'', Num 0), (''$s6'', Num 0), (''$s7'', Num 0),
     (''$t8'', Num 0), (''$t9'', Num 0), (''$k0'', Num 0), (''$k1'', Num 0),
     (''$gp'', Num 0), (''$sp'', Num 0), (''$fp'', Num 0), (''$ra'', Num 0)]"

definition initialMemory :: memoryWords where
  "initialMemory = map (\<lambda>i. (int i, Num 0)) [0 ..< 32]"

text \<open>\<open>stalls[i] || 0\<close>.\<close>

definition stallAt :: "stallTable \<Rightarrow> nat \<Rightarrow> int" where
  "stallAt stalls i = (case map_of stalls i of Some v \<Rightarrow> v | None \<Rightarrow> 0)"

text \<open>
  The loop \<open>for (let i = 0; i < index; i++)\<close> runs over no index when \<open>index\<close> is
  \<open>NaN\<close> or negative.
\<close>

definition calculatePrecedingStalls :: "stallTable \<Rightarrow> jsval \<Rightarrow> int" where
  "calculatePrecedingStalls stalls index =
     (case index of
        Num n \<Rightarrow> sum_list (map (stallAt stalls) [0 ..< nat n])
      | _ \<Rightarrow> 0)"

text \<open>
  \<open>xs.slice(start)\<close>: \<open>NaN\<close> counts as 0, a negative start counts from the end, and
  the start is clamped to the length.
\<close>

definition sliceStart :: "jsval \<Rightarrow> nat \<Rightarrow> nat" where
  "sliceStart start len =
     (case start of
        Num k \<Rightarrow> (if k < 0 then nat (max (int len + k) 0) else nat (min k (int len)))
      | _ \<Rightarrow> 0)"

definition jsSlice :: "jsval \<Rightarrow> 'a list \<Rightarrow> 'a list" where
  "jsSlice start xs = drop (sliceStart start (length xs)) xs"

text \<open>\<open>stageIndex >= 0 && stageIndex < stageCount ? stageIndex : null\<close>.\<close>

definition stageOrNull :: "int \<Rightarrow> int \<Rightarrow> int option" where
  "stageOrNull stageCount stageIndex =
     (if stageIndex \<ge> 0 \<and> stageIndex < stageCount then Some stageIndex else None)"

record SimulationState =
  instructions :: "string list"
  currentCycle :: int
  maxCycles :: int
  isRunning :: bool
  stageCount :: int
  instructionStages :: "(jsval \<times> int option) list"
  isFinished :: bool
  registerUsage :: "(nat \<times> RegisterUsage) list"
  hazards :: hazardTable
  forwardings :: forwardingTable
  stalls :: stallTable
  currentStallCycles :: int
  forwardingEnabled :: bool
  stallsEnabled :: bool
  registers :: registerFile
  memory :: memoryWords
  PC :: jsval

definition DEFAULT_STAGE_COUNT :: int where
  "DEFAULT_STAGE_COUNT = 5"

definition initialState :: SimulationState where
  "initialState =
     \<lparr>instructions = [], currentCycle = 0, maxCycles = 0, isRunning = False,
      stageCount = DEFAULT_STAGE_COUNT, instructionStages = [], isFinished = False,
      registerUsage = [], hazards = [], forwardings = [], stalls = [],
      currentStallCycles = 0, forwardingEnabled = True, stallsEnabled = True,
      registers = initialRegisters, memory = initialMemory, PC = Num 0\<rparr>"

definition resetSimulation :: "SimulationState \<Rightarrow> SimulationState" where
  "resetSimulation prevState =
     initialState\<lparr>forwardingEnabled := forwardingEnabled prevState,
                  stallsEnabled := stallsEnabled prevState\<rparr>"

text \<open>
  The variables that the \<open>forEach\<close> of \<open>calculateNextState\<close> updates:
  \<open>newInstructionStages\<close>, \<open>newStallCycles\<close>, \<open>newRegisters\<close>, \<open>newMemory\<close> and
  \<open>newPC\<close> (the counter \<open>activeInstructions\<close> is never read). A stage entry
  \<open>None\<close> is \<open>null\<close>.
\<close>

type_synonym tick =
  "(jsval \<times> int option) list \<times> int \<times> registerFile \<times> memoryWords \<times> jsval"

text \<open>The body of the \<open>forEach\<close>, for the instruction \<open>inst\<close> at \<open>index\<close>.\<close>

definition advanceInstruction ::
  "(string \<Rightarrow> string) \<Rightarrow> SimulationState \<Rightarrow> int \<Rightarrow> nat \<Rightarrow> string \<Rightarrow> tick \<Rightarrow> error + tick" where
  "advanceInstruction translateInstructionToMIPS currentState nextCycle index inst t =
     (case t of (newInstructionStages, newStallCycles, newRegisters, newMemory, newPC) \<Rightarrow>
      let precedingStalls =
            calculatePrecedingStalls (stalls currentState) (Num (int index));
          stageIndex = nextCycle - int index - 1 - precedingStalls
      in
      if stageIndex \<ge> 0 \<and> stageIndex < stageCount currentState then
        (let stages1 = AList.update (Num (int index)) (Some stageIndex) newInstructionStages;
             stall1 =
               (case map_of (stalls currentState) index of
                  Some v \<Rightarrow>
                    if stageIndex = 1 \<and> v > 0 \<and> newStallCycles = 0 then v else newStallCycles
                | None \<Rightarrow> newStallCycles);
             edges =
               (case map_of (forwardings currentState) index of
                  Some es \<Rightarrow> es | None \<Rightarrow> [])
         in
         if stageIndex = 2 then
           (case executeMIPSInstruction translateInstructionToMIPS inst newRegisters newMemory
                   newPC StageEX edges nextCycle of
              Inl e \<Rightarrow> Inl e
            | Inr (regs, mem, updatedPC) \<Rightarrow>
                Inr (stages1, stall1, regs, mem,
                     if updatedPC \<noteq> Undefined then updatedPC else newPC))
         else if stageIndex = 3 then
           (case executeMIPSInstruction translateInstructionToMIPS inst newRegisters newMemory
                   newPC StageMEM edges nextCycle of
              Inl e \<Rightarrow> Inl e
            | Inr (regs, mem, updatedPC) \<Rightarrow> Inr (stages1, stall1, regs, mem, newPC))
         else if stageIndex = 4 then
           (case executeMIPSInstruction translateInstructionToMIPS inst newRegisters newMemory
                   newPC StageWB edges nextCycle of
              Inl e \<Rightarrow> Inl e
            | Inr (regs, mem, updatedPC) \<Rightarrow> Inr (stages1, stall1, regs, mem, newPC))
         else Inr (stages1, stall1, newRegisters, newMemory, newPC))
      else
        Inr (AList.update (Num (int index)) None newInstructionStages, newStallCycles,
             newRegisters, newMemory, newPC))"

fun advanceAll ::
  "(string \<Rightarrow> string) \<Rightarrow> SimulationState \<Rightarrow> int \<Rightarrow> (nat \<times> string) list \<Rightarrow> tick
     \<Rightarrow> error + tick" where
  "advanceAll translateInstructionToMIPS currentState nextCycle [] t = Inr t"
| "advanceAll translateInstructionToMIPS currentState nextCycle ((index, inst) # rest) t =
     (case advanceInstruction translateInstructionToMIPS currentState nextCycle index inst t of
        Inl e \<Rightarrow> Inl e
      | Inr t1 \<Rightarrow> advanceAll translateInstructionToMIPS currentState nextCycle rest t1)"

text \<open>
  The stage table of a redirection, for a window of \<open>n\<close> instructions: the second
  \<open>forEach\<close>, which writes the entry \<open>index + newPC\<close> for each \<open>index\<close>.
\<close>

definition redirectStages ::
  "SimulationState \<Rightarrow> int \<Rightarrow> jsval \<Rightarrow> nat \<Rightarrow> (jsval \<times> int option) list" where
  "redirectStages currentState nextCycle newPC n =
     fold (\<lambda>index m.
             AList.update (jsAdd (Num (int index)) newPC)
               (stageOrNull (stageCount currentState)
                  (nextCycle - int index - 1 -
                   calculatePrecedingStalls (stalls currentState)
                     (jsAdd (Num (int index)) newPC)))
               m)
          [0 ..< n] []"

definition completionCycleOf :: "SimulationState \<Rightarrow> int" where
  "completionCycleOf currentState =
     (if length (instructions currentState) > 0
      then int (length (instructions currentState)) + stageCount currentState - 1 +
           sum_list (map snd (stalls currentState))
      else 0)"

definition calculateNextState ::
  "(string \<Rightarrow> string) \<Rightarrow> SimulationState \<Rightarrow> error + SimulationState" where
  "calculateNextState translateInstructionToMIPS currentState =
     (if \<not> isRunning currentState \<or> isFinished currentState then Inr currentState
      else
        let nextCycle = currentCycle currentState + 1 in
        if currentStallCycles currentState > 0 then
          Inr (currentState\<lparr>currentCycle := nextCycle,
                 instructionStages := instructionStages currentState,
                 currentStallCycles := currentStallCycles currentState - 1,
                 registers := registers currentState,
                 memory := memory currentState,
                 PC := PC currentState\<rparr>)
        else
          (case advanceAll translateInstructionToMIPS currentState nextCycle
                  (enumerate 0 (instructions currentState))
                  ([], currentStallCycles currentState, registers currentState,
                   memory currentState, PC currentState) of
             Inl e \<Rightarrow> Inl e
           | Inr (newInstructionStages, newStallCycles, newRegisters, newMemory, newPC) \<Rightarrow>
               (let completionCycle = completionCycleOf currentState;
                    isFinished' = (nextCycle > completionCycle);
                    isRunning' = (\<not> isFinished')
                in
                if \<not> isFinished' \<and> \<not> jsStrictEq newPC (PC currentState) then
                  (let newInstructions = jsSlice newPC (instructions currentState) in
                   Inr (currentState\<lparr>instructions := newInstructions,
                          currentCycle := nextCycle,
                          instructionStages :=
                            redirectStages currentState nextCycle newPC (length newInstructions),
                          isRunning := isRunning',
                          isFinished := isFinished',
                          currentStallCycles := newStallCycles,
                          registers := newRegisters,
                          memory := newMemory,
                          PC := newPC\<rparr>))
                else
                  Inr (currentState\<lparr>currentCycle :=
                            (if isFinished' then completionCycle else nextCycle),
                         instructionStages := newInstructionStages,
                         isRunning := isRunning',
                         isFinished := isFinished',
                         currentStallCycles := newStallCycles,
                         registers := newRegisters,
                         memory := newMemory,
                         PC := newPC\<rparr>))))"

text \<open>The first \<open>forEach\<close> of \<open>startSimulation\<close>: the register usage of every instruction.\<close>

definition decodeAll :: "string list \<Rightarrow> (nat \<times> RegisterUsage) list" where
  "decodeAll submittedInstructions =
     fold (\<lambda>(index, inst) m. AList.update index (parseInstruction inst) m)
       (enumerate 0 submittedInstructions) []"

definition startSimulation :: "SimulationState \<Rightarrow> string list \<Rightarrow> error + SimulationState" where
  "startSimulation simulationState submittedInstructions =
     (if length submittedInstructions = 0 then Inr (resetSimulation simulationState)
      else
        let registerUsage' = decodeAll submittedInstructions
        in
        case detectHazards submittedInstructions registerUsage'
               (forwardingEnabled simulationState) (stallsEnabled simulationState) of
          Inl e \<Rightarrow> Inl e
        | Inr (hazards', forwardings', stalls') \<Rightarrow>
            Inr \<lparr>instructions = submittedInstructions,
                 currentCycle = 1,
                 maxCycles = int (length submittedInstructions) + DEFAULT_STAGE_COUNT - 1 +
                             sum_list (map snd stalls'),
                 isRunning = True,
                 stageCount = DEFAULT_STAGE_COUNT,
                 instructionStages =
                   fold (\<lambda>index m.
                           AList.update (Num (int index))
                             (stageOrNull DEFAULT_STAGE_COUNT (1 - int index - 1)) m)
                     [0 ..< length submittedInstructions] [],
                 isFinished = False,
                 registerUsage = registerUsage',
                 hazards = hazards',
                 forwardings = forwardings',
                 stalls = stalls',
                 currentStallCycles = 0,
                 forwardingEnabled = forwardingEnabled simulationState,
                 stallsEnabled = stallsEnabled simulationState,
                 registers = initialRegisters,
                 memory = initialMemory,
                 PC = Num 0\<rparr>)"

subsection \<open>The clock and an example decoder\<close>

text \<open>The clock driver delivers ticks: \<open>n\<close> transitions, stopping at an exception.\<close>

fun runSteps ::
  "(string \<Rightarrow> string) \<Rightarrow> nat \<Rightarrow> error + SimulationState \<Rightarrow> error + SimulationState" where
  "runSteps translateInstructionToMIPS 0 r = r"
| "runSteps translateInstructionToMIPS (Suc n) r =
     (case runSteps translateInstructionToMIPS n r of
        Inl e \<Rightarrow> Inl e
      | Inr s \<Rightarrow> calculateNextState translateInstructionToMIPS s)"

definition raises :: "error + 'a \<Rightarrow> bool" where
  "raises r = (case r of Inl e \<Rightarrow> True | Inr x \<Rightarrow> False)"

text \<open>
  The state \<open>n\<close> ticks after the start of a program (the previous state, should the
  run raise).
\<close>

definition stateAfter ::
  "(string \<Rightarrow> string) \<Rightarrow> nat \<Rightarrow> SimulationState \<Rightarrow> string list \<Rightarrow> SimulationState" where
  "stateAfter translateInstructionToMIPS n simulationState submittedInstructions =
     (case runSteps translateInstructionToMIPS n
             (startSimulation simulationState submittedInstructions) of
        Inl e \<Rightarrow> simulationState
      | Inr s \<Rightarrow> s)"

text \<open>
  Modelled from the spec: \<open>translateInstructionToMIPS\<close> of the module \<open>Converter\<close>
  is not among the sources; the spec describes it as the pure function from a raw
  encoding to the mnemonic and operand text. The embedding takes it as a parameter.
  \<open>exampleDecoder\<close> gives the assembly text of the instruction words that the
  examples below use, with registers written by name.
\<close>

definition exampleDecoder :: "string \<Rightarrow> string" where
  "exampleDecoder hex =
     (if hex = ''20080005'' then ''addi $t0 $zero 5''
      else if hex = ''20000005'' then ''addi $zero $zero 5''
      else if hex = ''20090001'' then ''addi $t1 $zero 1''
      else if hex = ''20080002'' then ''addi $t0 $zero 2''
      else if hex = ''21090003'' then ''addi $t1 $t0 3''
      else if hex = ''8c080000'' then ''lw $t0 0($zero)''
      else if hex = ''8d090028'' then ''lw $t1 40($t0)''
      else if hex = ''10000001'' then ''beq $zero $zero 1''
      else if hex = ''1000fffd'' then ''beq $zero $zero -3''
      else if hex = ''ad09ffff'' then ''sw $t1 -1($t0)''
      else ''unknown'')"


text \<open>
  Three programs: \<open>addi $t0, $zero, 5\<close> alone; \<open>addi $t1, $zero, 1\<close>,
  \<open>addi $t0, $zero, 2\<close>, \<open>addi $t1, $t0, 3\<close>; and the same with a taken branch
  \<open>beq $zero, $zero, 1\<close> in the first place. Then two dependent pairs, the producer
  \<open>addi $t0, $zero, 2\<close> or \<open>lw $t0, 0($zero)\<close> followed by \<open>addi $t1, $t0, 3\<close>; a
  program whose first instruction is the backward branch \<open>beq $zero, $zero, -3\<close>; and
  a program whose branch comes after a dependent pair.
\<close>

definition singleProgram :: "string list" where
  "singleProgram = [''20080005'']"

definition rawProgram :: "string list" where
  "rawProgram = [''20090001'', ''20080002'', ''21090003'']"

definition branchProgram :: "string list" where
  "branchProgram = [''10000001'', ''20080002'', ''21090003'']"



definition backwardProgram :: "string list" where
  "backwardProgram = [''1000fffd'', ''20080002'', ''21090003'']"

definition stalledBranchProgram :: "string list" where
  "stalledBranchProgram = [''20080002'', ''21090003'', ''10000001'', ''20090001'']"

definition noForwarding :: SimulationState where
  "noForwarding = initialState\<lparr>forwardingEnabled := False\<rparr>"

text \<open>
  The state of \<open>branchProgram\<close> one tick after its start (cycle 2: the branch is
  in ID), and a running state with two pending stall cycles.
\<close>

definition branchState :: SimulationState where
  "branchState =
     initialState\<lparr>instructions := branchProgram, currentCycle := 2, maxCycles := 7,
       isRunning := True,
       instructionStages := [(Num 0, Some 1), (Num 1, Some 0), (Num 2, None)],
       registerUsage := decodeAll branchProgram,
       hazards :=
         [(0, noHazard), (1, noHazard),
          (2, \<lparr>hazardType = RAW,
               description = ''RAW hazard: rs($t0) depends on instruction 1 (forwarded)'',
               canForward = True, stallCycles = 0\<rparr>)],
       forwardings :=
         [(0, []), (1, []),
          (2, [\<lparr>fromIndex = 1, toIndex = 2, fromStage = StageEX, toStage = StageEX,
                register = ''$t0''\<rparr>])],
       stalls := [(0, 0), (1, 0), (2, 0)]\<rparr>"

definition stalledState :: SimulationState where
  "stalledState =
     noForwarding\<lparr>instructions := rawProgram, currentCycle := 4, maxCycles := 9,
       isRunning := True,
       instructionStages := [(Num 0, Some 3), (Num 1, Some 2), (Num 2, Some 1)],
       stalls := [(0, 0), (1, 0), (2, 2)], currentStallCycles := 2\<rparr>"

text \<open>
  The state of \<open>backwardProgram\<close> one tick after its start (cycle 2: the branch is in
  ID), and the state of \<open>stalledBranchProgram\<close> without forwarding five ticks after
  its start (cycle 6): the two stall cycles of instruction 1 are spent, \<open>$t0\<close> holds
  2, and the branch, instruction 2, is in ID.
\<close>

definition backwardState :: SimulationState where
  "backwardState =
     branchState\<lparr>instructions := backwardProgram,
       registerUsage := decodeAll backwardProgram\<rparr>"

definition stalledBranchState :: SimulationState where
  "stalledBranchState =
     noForwarding\<lparr>instructions := stalledBranchProgram, currentCycle := 6, maxCycles := 10,
       isRunning := True,
       instructionStages := [(Num 0, None), (Num 1, Some 4), (Num 2, Some 1), (Num 3, Some 0)],
       registerUsage := decodeAll stalledBranchProgram,
       hazards :=
         [(0, noHazard),
          (1, \<lparr>hazardType = RAW,
               description = ''RAW hazard: rs($t0) depends on instruction 0 (no forwarding)'',
               canForward = False, stallCycles = 2\<rparr>),
          (2, noHazard),
          (3, \<lparr>hazardType = WAW,
               description = ''WAW hazard: Both instructions write to $t1'',
               canForward = True, stallCycles = 0\<rparr>)],
       forwardings := [(0, []), (1, []), (2, []), (3, [])],
       stalls := [(0, 0), (1, 2), (2, 0), (3, 0)],
       registers := AList.update ''$t0'' (Num 2) initialRegisters\<rparr>"

subsection \<open>Example instructions\<close>

text \<open>
  The register usage of \<open>lw $t0, 0($zero)\<close>, of \<open>addi $t0, $zero, 2\<close> and of
  \<open>addi $t1, $t0, 3\<close>, as \<open>parseInstruction\<close> yields them.
\<close>

definition useLoadT0 :: RegisterUsage where
  "useLoadT0 = \<lparr>rs = 0, rt = 8, rd = 8, opcode = 35, funct = 0, type = I,
                isLoad = True, isStore = False\<rparr>"

definition useAddiT0 :: RegisterUsage where
  "useAddiT0 = \<lparr>rs = 0, rt = 8, rd = 8, opcode = 8, funct = 0, type = I,
                isLoad = False, isStore = False\<rparr>"

definition useAddiT1T0 :: RegisterUsage where
  "useAddiT1T0 = \<lparr>rs = 8, rt = 9, rd = 9, opcode = 8, funct = 0, type = I,
                  isLoad = False, isStore = False\<rparr>"

section \<open>Properties of the hazard analyzer\<close>


lemma initTables_3:
  "initTables 3 =
     ([(0, noHazard), (1, noHazard), (2, noHazard)], [(0, []), (1, []), (2, [])],
      [(0, 0), (1, 0), (2, 0)])"
  by (simp add: initTables_def numeral_3_eq_3)

lemma producers_iff: "j \<in> set (producers i) \<longleftrightarrow> j < i \<and> i - j \<le> 3"
  by (auto simp: producers_def)


text \<open>
  Claim C10. A pair \<open>(i, j)\<close> of the scan with a RAW match on a load at distance 2 or 3:
  the body returns the three tables as they were, under either setting of the
  forwarding toggle: no stall entry, no edge, no RAW record and (the RAW match
  suppressing the WAW test) no WAW record, so the entries of \<open>i\<close> keep the values
  the rest of the scan gives them.
\<close>

theorem far_load_records_nothing:
  assumes "j \<in> set (producers i)"
    and "fst (rawHazard currentInst prevInst)"
    and "isLoad prevInst"
    and "int i - int j = 2 \<or> int i - int j = 3"
  shows "scanProducer fe currentInst prevInst i j T = Inr T"
  using assms(2-)
  by (cases T) (auto simp add: scanProducer_def recordRaw_def Let_def)

theorem far_load_records_nothing_witness:
  "0 \<in> set (producers 2) \<and> fst (rawHazard useAddiT1T0 useLoadT0) \<and> isLoad useLoadT0 \<and>
   scanProducer True useAddiT1T0 useLoadT0 2 0 (initTables 3) = Inr (initTables 3) \<and>
   scanProducer False useAddiT1T0 useLoadT0 2 0 (initTables 3) = Inr (initTables 3)"
  using far_load_records_nothing [of 0 2 useAddiT1T0 useLoadT0 True "initTables 3"]
    far_load_records_nothing [of 0 2 useAddiT1T0 useLoadT0 False "initTables 3"]
  by (simp add: producers_def rawHazard_def useAddiT1T0_def useLoadT0_def)

lemma scanProducer_hazard:
  assumes "scanProducer fe cur prev i j (hz, fw, st) = Inr (hz', fw', st')"
  shows "map_of hz' i = (case pairHazard fe cur prev i j of None \<Rightarrow> map_of hz i | Some r \<Rightarrow> Some r)"
  using assms
  by (auto simp: scanProducer_def recordRaw_def appendEdge_def Let_def pairHazard_def pairTables_def
      AList.update_conv' split: if_splits option.splits sum.splits)

lemma scanProducer_stall:
  assumes "scanProducer fe cur prev i j (hz, fw, st) = Inr (hz', fw', st')"
  shows "map_of st' i = (case pairStall fe cur prev i j of None \<Rightarrow> map_of st i | Some r \<Rightarrow> Some r)"
  using assms
  by (auto simp: scanProducer_def recordRaw_def appendEdge_def Let_def pairStall_def pairTables_def
      AList.update_conv' split: if_splits option.splits sum.splits)

lemma scanProducer_other:
  assumes "scanProducer fe cur prev i j (hz, fw, st) = Inr (hz', fw', st')" "k \<noteq> i"
  shows "map_of hz' k = map_of hz k \<and> map_of st' k = map_of st k"
  using assms
  by (auto simp: scanProducer_def recordRaw_def appendEdge_def Let_def 
      AList.update_conv' split: if_splits option.splits sum.splits)

lemma scanProducers_append:
  "scanProducers fe ru cur i (xs @ ys) T =
     (case scanProducers fe ru cur i xs T of Inl e \<Rightarrow> Inl e | Inr T1 \<Rightarrow> scanProducers fe ru cur i ys T1)"
  by (induction xs arbitrary: T) (auto split: option.splits sum.splits)

lemma scanProducers_keep_hazard:
  assumes "scanProducers fe ru cur i js T = Inr T'"
    and "\<forall>j\<in>set js. \<forall>p. map_of ru j = Some p \<longrightarrow> pairHazard fe cur p i j = None"
  shows "map_of (fst T') i = map_of (fst T) i"
  using assms
proof (induction js arbitrary: T)
  case Nil
  then show ?case by simp
next
  case (Cons j js)
  from Cons.prems(1) obtain p T1 where p: "map_of ru j = Some p"
    and s1: "scanProducer fe cur p i j T = Inr T1"
    and rest: "scanProducers fe ru cur i js T1 = Inr T'"
    by (auto split: option.splits sum.splits)
  from Cons.prems(2) p have none: "pairHazard fe cur p i j = None" by simp
  have "map_of (fst T1) i = map_of (fst T) i"
    using scanProducer_hazard [of fe cur p i j "fst T" "fst (snd T)" "snd (snd T)" "fst T1" "fst (snd T1)" "snd (snd T1)"] s1 none
    by simp
  moreover have "map_of (fst T') i = map_of (fst T1) i"
    using Cons.IH [OF rest] Cons.prems(2) by simp
  ultimately show ?case by simp
qed

lemma scanProducers_keep_stall:
  assumes "scanProducers fe ru cur i js T = Inr T'"
    and "\<forall>j\<in>set js. \<forall>p. map_of ru j = Some p \<longrightarrow> pairStall fe cur p i j = None"
  shows "map_of (snd (snd T')) i = map_of (snd (snd T)) i"
  using assms
proof (induction js arbitrary: T)
  case Nil
  then show ?case by simp
next
  case (Cons j js)
  from Cons.prems(1) obtain p T1 where p: "map_of ru j = Some p"
    and s1: "scanProducer fe cur p i j T = Inr T1"
    and rest: "scanProducers fe ru cur i js T1 = Inr T'"
    by (auto split: option.splits sum.splits)
  from Cons.prems(2) p have none: "pairStall fe cur p i j = None" by simp
  have "map_of (snd (snd T1)) i = map_of (snd (snd T)) i"
    using scanProducer_stall [of fe cur p i j "fst T" "fst (snd T)" "snd (snd T)" "fst T1" "fst (snd T1)" "snd (snd T1)"] s1 none
    by simp
  moreover have "map_of (snd (snd T')) i = map_of (snd (snd T1)) i"
    using Cons.IH [OF rest] Cons.prems(2) by simp
  ultimately show ?case by simp
qed

lemma scanProducers_other:
  assumes "scanProducers fe ru cur i js T = Inr T'" and "k \<noteq> i"
  shows "map_of (fst T') k = map_of (fst T) k \<and> map_of (snd (snd T')) k = map_of (snd (snd T)) k"
  using assms
proof (induction js arbitrary: T)
  case Nil
  then show ?case by simp
next
  case (Cons j js)
  from Cons.prems(1) obtain p T1 where p: "map_of ru j = Some p"
    and s1: "scanProducer fe cur p i j T = Inr T1"
    and rest: "scanProducers fe ru cur i js T1 = Inr T'"
    by (auto split: option.splits sum.splits)
  have "map_of (fst T1) k = map_of (fst T) k \<and> map_of (snd (snd T1)) k = map_of (snd (snd T)) k"
    using scanProducer_other [of fe cur p i j "fst T" "fst (snd T)" "snd (snd T)" "fst T1" "fst (snd T1)" "snd (snd T1)" k] s1 Cons.prems(2)
    by simp
  with Cons.IH [OF rest Cons.prems(2)] show ?case by simp
qed

lemma scanInstructions_append:
  "scanInstructions fe ru (xs @ ys) T =
     (case scanInstructions fe ru xs T of Inl e \<Rightarrow> Inl e | Inr T1 \<Rightarrow> scanInstructions fe ru ys T1)"
  by (induction xs arbitrary: T) (auto split: option.splits sum.splits)

lemma scanInstructions_other:
  assumes "scanInstructions fe ru is T = Inr T'" and "k \<notin> set is"
  shows "map_of (fst T') k = map_of (fst T) k \<and> map_of (snd (snd T')) k = map_of (snd (snd T)) k"
  using assms
proof (induction "is" arbitrary: T)
  case Nil
  then show ?case by simp
next
  case (Cons i "is")
  from Cons.prems(1) obtain cur where cur: "map_of ru i = Some cur"
    by (auto split: option.splits)
  show ?case
  proof (cases "type cur = J")
    case True
    with Cons cur show ?thesis by simp
  next
    case False
    with Cons.prems(1) cur obtain T1 where s1: "scanProducers fe ru cur i (producers i) T = Inr T1"
      and rest: "scanInstructions fe ru is T1 = Inr T'"
      by (auto split: sum.splits)
    from Cons.prems(2) have ki: "k \<noteq> i" and kis: "k \<notin> set is" by auto
    from scanProducers_other [OF s1 ki] Cons.IH [OF rest kis] show ?thesis by simp
  qed
qed

text \<open>
  Claim C4, as amended. The scan of a destination \<open>i\<close> (not a jump) visits the
  producers \<open>i - 1\<close>, \<open>i - 2\<close>, \<open>i - 3\<close> in this order and never stops early. The
  hazard record that \<open>detectHazards\<close> returns for \<open>i\<close> is the one written for the
  farthest producer whose pair writes a hazard record, and the stall entry it returns
  for \<open>i\<close> is the one written for the farthest producer whose pair writes a stall
  entry: a pair that writes only a hazard record (a WAW match, a RAW match under
  forwarding) leaves the stall entry of a nearer pair in place, and a pair that writes
  nothing (a load at distance 2 or 3) leaves both.
\<close>

theorem farthest_writer_wins:
  assumes run: "detectHazards prog ru fe True = Inr (hz, fw, st)"
    and i: "0 < i" "i < length prog"
    and cur: "map_of ru i = Some cur" "type cur \<noteq> J"
    and js: "producers i = nearer @ j # farther"
    and prev: "map_of ru j = Some prev"
  shows "(\<forall>r. pairHazard fe cur prev i j = Some r \<and>
              (\<forall>j'\<in>set farther. \<forall>p. map_of ru j' = Some p \<longrightarrow> pairHazard fe cur p i j' = None)
              \<longrightarrow> map_of hz i = Some r) \<and>
         (\<forall>v. pairStall fe cur prev i j = Some v \<and>
              (\<forall>j'\<in>set farther. \<forall>p. map_of ru j' = Some p \<longrightarrow> pairStall fe cur p i j' = None)
              \<longrightarrow> map_of st i = Some v)"
proof -
  have split: "[1 ..< length prog] = [1 ..< i] @ i # [Suc i ..< length prog]"
  proof -
    have "[1 ..< length prog] = [1 ..< i] @ [i ..< length prog]"
      using i upt_add_eq_append [of 1 i "length prog - i"] by simp
    then show ?thesis using i by (simp add: upt_conv_Cons)
  qed
  from run have "scanInstructions fe ru [1 ..< length prog]
      (initTables (length prog)) = Inr (hz, fw, st)"
    by (simp add: detectHazards_def Let_def)
  then have "scanInstructions fe ru ([1 ..< i] @ i # [Suc i ..< length prog])
      (initTables (length prog)) = Inr (hz, fw, st)"
    by (simp only: split)
  then obtain T1 T2 where
      s2: "scanProducers fe ru cur i (producers i) T1 = Inr T2"
      and s3: "scanInstructions fe ru [Suc i ..< length prog] T2 = Inr (hz, fw, st)"
    using cur by (auto simp: scanInstructions_append split: sum.splits)
  have after: "map_of hz i = map_of (fst T2) i \<and> map_of st i = map_of (snd (snd T2)) i"
    using scanInstructions_other [OF s3, of i] by simp
  from s2 js obtain Ta Tb where
      sa: "scanProducer fe cur prev i j Ta = Inr Tb"
      and sb: "scanProducers fe ru cur i farther Tb = Inr T2"
    using prev by (auto simp: scanProducers_append split: sum.splits)
  note h = scanProducer_hazard [of fe cur prev i j "fst Ta" "fst (snd Ta)" "snd (snd Ta)" "fst Tb" "fst (snd Tb)" "snd (snd Tb)"]
  note s = scanProducer_stall [of fe cur prev i j "fst Ta" "fst (snd Ta)" "snd (snd Ta)" "fst Tb" "fst (snd Tb)" "snd (snd Tb)"]
  show ?thesis
  proof (intro conjI allI impI)
    fix r assume a: "pairHazard fe cur prev i j = Some r \<and>
        (\<forall>j'\<in>set farther. \<forall>p. map_of ru j' = Some p \<longrightarrow> pairHazard fe cur p i j' = None)"
    with h sa have "map_of (fst Tb) i = Some r" by simp
    moreover from a scanProducers_keep_hazard [OF sb] have "map_of (fst T2) i = map_of (fst Tb) i" by simp
    ultimately show "map_of hz i = Some r" using after by simp
  next
    fix v assume a: "pairStall fe cur prev i j = Some v \<and>
        (\<forall>j'\<in>set farther. \<forall>p. map_of ru j' = Some p \<longrightarrow> pairStall fe cur p i j' = None)"
    with s sa have "map_of (snd (snd Tb)) i = Some v" by simp
    moreover from a scanProducers_keep_stall [OF sb] have "map_of (snd (snd T2)) i = map_of (snd (snd Tb)) i" by simp
    ultimately show "map_of st i = Some v" using after by simp
  qed
qed

lemma parse_20090001: "parseInstruction ''20090001'' = \<lparr>rs = 0, rt = 9, rd = 9, opcode = 8, funct = 0, type = I, isLoad = False, isStore = False\<rparr>"
  by code_simp
lemma parse_20080002: "parseInstruction ''20080002'' = useAddiT0"
  unfolding useAddiT0_def by code_simp
lemma parse_21090003: "parseInstruction ''21090003'' = useAddiT1T0"
  unfolding useAddiT1T0_def by code_simp

lemma decodeAll_raw: "decodeAll rawProgram = [(0, parseInstruction ''20090001''), (1, parseInstruction ''20080002''), (2, parseInstruction ''21090003'')]"
  by (simp add: decodeAll_def rawProgram_def enumerate_simps)

lemma producers_2: "producers 2 = [1, 0]"
  by code_simp

lemma producers_Suc: "producers (Suc 0) = [0]" "producers (Suc (Suc 0)) = [Suc 0, 0]"
  by (simp_all add: producers_def)

lemma initTables_Suc3:
  "initTables (Suc (Suc (Suc 0))) =
     ([(0, noHazard), (1, noHazard), (2, noHazard)], [(0, []), (1, []), (2, [])],
      [(0, 0), (1, 0), (2, 0)])"
  using initTables_3 by (simp add: numeral_3_eq_3)

lemma rawProgram_tables:
  "detectHazards rawProgram (decodeAll rawProgram) False True =
     Inr ([(0, noHazard), (1, noHazard),
           (2, \<lparr>hazardType = WAW,
                description = ''WAW hazard: Both instructions write to $t1'',
                canForward = True, stallCycles = 0\<rparr>)],
          [(0, []), (1, []), (2, [])],
          [(0, 0), (1, 0), (2, 2)])"
  unfolding decodeAll_raw parse_20090001 parse_20080002 parse_21090003 useAddiT0_def useAddiT1T0_def
  by (simp add: detectHazards_def rawProgram_def initTables_Suc3 producers_Suc
     scanProducer_def rawHazard_def recordRaw_def Let_def regMapText_def regMap_def intToString_def digitsOf.simps)

lemma rawProgram_pairs:
  "pairHazard False (parseInstruction ''21090003'') (parseInstruction ''20090001'') 2 0 =
     Some \<lparr>hazardType = WAW, description = ''WAW hazard: Both instructions write to $t1'',
           canForward = True, stallCycles = 0\<rparr> \<and>
   pairStall False (parseInstruction ''21090003'') (parseInstruction ''20090001'') 2 0 = None \<and>
   pairHazard False (parseInstruction ''21090003'') (parseInstruction ''20080002'') 2 1 =
     Some \<lparr>hazardType = RAW,
           description = ''RAW hazard: rs($t0) depends on instruction 1 (no forwarding)'',
           canForward = False, stallCycles = 2\<rparr> \<and>
   pairStall False (parseInstruction ''21090003'') (parseInstruction ''20080002'') 2 1 = Some 2"
  unfolding parse_20090001 parse_20080002 parse_21090003 useAddiT0_def useAddiT1T0_def
  by (simp add: pairHazard_def pairStall_def pairTables_def
     scanProducer_def rawHazard_def recordRaw_def Let_def regMapText_def regMap_def intToString_def digitsOf.simps)

theorem farthest_writer_wins_witness:
  "detectHazards rawProgram (decodeAll rawProgram) False True =
     Inr ([(0, noHazard), (1, noHazard),
           (2, \<lparr>hazardType = WAW,
                description = ''WAW hazard: Both instructions write to $t1'',
                canForward = True, stallCycles = 0\<rparr>)],
          [(0, []), (1, []), (2, [])],
          [(0, 0), (1, 0), (2, 2)]) \<and>
   producers 2 = [1, 0] \<and>
   pairHazard False (parseInstruction ''21090003'') (parseInstruction ''20090001'') 2 0 =
     map_of [(0 :: nat, noHazard), (1, noHazard),
             (2, \<lparr>hazardType = WAW,
                  description = ''WAW hazard: Both instructions write to $t1'',
                  canForward = True, stallCycles = 0\<rparr>)] 2 \<and>
   pairStall False (parseInstruction ''21090003'') (parseInstruction ''20090001'') 2 0 = None \<and>
   pairStall False (parseInstruction ''21090003'') (parseInstruction ''20080002'') 2 1 =
     map_of [(0 :: nat, 0 :: int), (1, 0), (2, 2)] 2"
proof -
  have len: "(0::nat) < 2" "2 < length rawProgram"
    by (simp_all add: rawProgram_def)
  have cur: "map_of (decodeAll rawProgram) 2 = Some (parseInstruction ''21090003'')"
      "type (parseInstruction ''21090003'') \<noteq> J"
    by (simp_all add: decodeAll_raw parse_21090003 useAddiT1T0_def)
  have far: "producers 2 = [1] @ 0 # []" and near: "producers 2 = [] @ 1 # [0]"
    using producers_2 by simp_all
  have p0: "map_of (decodeAll rawProgram) 0 = Some (parseInstruction ''20090001'')"
    and p1: "map_of (decodeAll rawProgram) 1 = Some (parseInstruction ''20080002'')"
    by (simp_all add: decodeAll_raw)
  from farthest_writer_wins [OF rawProgram_tables len cur far p0]
    farthest_writer_wins [OF rawProgram_tables len cur near p1]
    rawProgram_tables producers_2 rawProgram_pairs p0
  show ?thesis by simp
qed

text \<open>
  Claim C4 as stated fails. In \<open>addi $t1, $zero, 1\<close>, \<open>addi $t0, $zero, 2\<close>,
  \<open>addi $t1, $t0, 3\<close> without forwarding, the two producers of instruction 2 match:
  instruction 1 by a RAW dependence (a record and a stall entry of 2 cycles), then
  instruction 0, the farthest, by a WAW dependence (a record of 0 stall cycles and no
  stall entry). The hazard record stored for instruction 2 is the WAW record of the
  farthest match, but the stall entry stored is 2, the entry of the nearer match.
\<close>

theorem farthest_match_keeps_nearer_stall:
  "producers 2 = [1, 0] \<and>
   pairHazard False (parseInstruction ''21090003'') (parseInstruction ''20090001'') 2 0 =
     Some \<lparr>hazardType = WAW, description = ''WAW hazard: Both instructions write to $t1'',
           canForward = True, stallCycles = 0\<rparr> \<and>
   pairStall False (parseInstruction ''21090003'') (parseInstruction ''20090001'') 2 0 = None \<and>
   pairStall False (parseInstruction ''21090003'') (parseInstruction ''20080002'') 2 1 = Some 2 \<and>
   detectHazards rawProgram (decodeAll rawProgram) False True =
     Inr ([(0, noHazard), (1, noHazard),
           (2, \<lparr>hazardType = WAW,
                description = ''WAW hazard: Both instructions write to $t1'',
                canForward = True, stallCycles = 0\<rparr>)],
          [(0, []), (1, []), (2, [])],
          [(0, 0), (1, 0), (2, 2)])"
  using rawProgram_tables producers_2 rawProgram_pairs by simp

subsection \<open>Invariants of the analyzer tables\<close>

text \<open>
  Two facts hold of every table that \<open>detectHazards\<close> returns, by induction over its two
  loops. With forwarding enabled no stall entry is ever written with a value other than 0
  (the only writes are the initial 0 and the \<open>stalls[i] = 0\<close> of the forwarding
  branch). And every forwarding edge is named \<open>$\<close> followed by an entry of \<open>regMap\<close>
  or by \<open>r\<close> and a decimal number, so that no edge is named \<open>$rNaN\<close>, the name under
  which the execution unit looks up an operand that \<open>parseInt\<close> does not read.
\<close>

lemma regMapText_not_rNaN: "regMapText n \<noteq> ''rNaN''"
  by (auto simp: regMapText_def regMap_def split: option.splits if_splits)

lemma getRegName_NaN: "getRegName NaN = ''$rNaN''"
  by (simp add: getRegName_def jsToString_def regMap_def)

lemma scanProducer_zero_stalls:
  assumes "scanProducer True cur prev i j (hz, fw, st) = Inr (hz', fw', st')"
    and "\<forall>k v. map_of st k = Some v \<longrightarrow> v = 0"
  shows "\<forall>k v. map_of st' k = Some v \<longrightarrow> v = 0"
  using assms
  by (auto simp: scanProducer_def recordRaw_def appendEdge_def Let_def AList.update_conv'
      split: if_splits option.splits sum.splits)

lemma scanProducer_edge_names:
  assumes "scanProducer fe cur prev i j (hz, fw, st) = Inr (hz', fw', st')"
    and "\<forall>k es. map_of fw k = Some es \<longrightarrow> (\<forall>e \<in> set es. \<exists>n. register e = ''$'' @ regMapText n)"
  shows "\<forall>k es. map_of fw' k = Some es \<longrightarrow> (\<forall>e \<in> set es. \<exists>n. register e = ''$'' @ regMapText n)"
  using assms
  by (fastforce simp: scanProducer_def recordRaw_def appendEdge_def Let_def AList.update_conv'
      split: if_splits option.splits sum.splits)

lemma scanProducers_invariant:
  assumes step: "\<And>prev j T T'. scanProducer fe cur prev i j T = Inr T' \<Longrightarrow> P T \<Longrightarrow> P T'"
    and run: "scanProducers fe ru cur i js T = Inr T'" and init: "P T"
  shows "P T'"
  using run init
proof (induction js arbitrary: T)
  case Nil
  then show ?case by simp
next
  case (Cons j js)
  from Cons.prems(1) obtain p T1 where s1: "scanProducer fe cur p i j T = Inr T1"
    and rest: "scanProducers fe ru cur i js T1 = Inr T'"
    by (auto split: option.splits sum.splits)
  from step [OF s1 Cons.prems(2)] Cons.IH [OF rest] show ?case by simp
qed

lemma scanInstructions_invariant:
  assumes step: "\<And>cur prev i j T T'. scanProducer fe cur prev i j T = Inr T' \<Longrightarrow> P T \<Longrightarrow> P T'"
    and run: "scanInstructions fe ru is T = Inr T'" and init: "P T"
  shows "P T'"
  using run init
proof (induction "is" arbitrary: T)
  case Nil
  then show ?case by simp
next
  case (Cons i "is")
  from Cons.prems(1) obtain cur where cur: "map_of ru i = Some cur"
    by (auto split: option.splits)
  show ?case
  proof (cases "type cur = J")
    case True
    with Cons cur show ?thesis by simp
  next
    case False
    with Cons.prems(1) cur obtain T1 where s1: "scanProducers fe ru cur i (producers i) T = Inr T1"
      and rest: "scanInstructions fe ru is T1 = Inr T'"
      by (auto split: sum.splits)
    have "P T1"
      by (rule scanProducers_invariant [where P = P, OF step s1 Cons.prems(2)])
    with Cons.IH [OF rest] show ?thesis by simp
  qed
qed

lemma initTables_Suc:
  "initTables (Suc n) =
     (case initTables n of (hz, fw, st) \<Rightarrow>
        (AList.update n noHazard hz, AList.update n [] fw, AList.update n 0 st))"
  by (simp add: initTables_def)

lemma initTables_entries:
  "initTables n = (hz, fw, st) \<Longrightarrow>
     (\<forall>k v. map_of st k = Some v \<longrightarrow> v = 0) \<and> (\<forall>k es. map_of fw k = Some es \<longrightarrow> es = [])"
proof (induction n arbitrary: hz fw st)
  case 0
  then show ?case by (simp add: initTables_def)
next
  case (Suc n)
  obtain hz0 fw0 st0 where t: "initTables n = (hz0, fw0, st0)" by (cases "initTables n") auto
  from Suc.IH [OF t] Suc.prems t show ?case
    by (auto simp: initTables_Suc AList.update_conv' split: if_splits)
qed

lemma forwarding_leaves_no_stall:
  assumes "detectHazards prog ru True se = Inr (hz, fw, st)" and "map_of st k = Some v"
  shows "v = 0"
proof -
  let ?P = "\<lambda>T :: tables. \<forall>k v. map_of (snd (snd T)) k = Some v \<longrightarrow> v = 0"
  obtain hz0 fw0 st0 where t: "initTables (length prog) = (hz0, fw0, st0)"
    by (cases "initTables (length prog)") auto
  have init: "?P (initTables (length prog))"
    using initTables_entries [OF t] t by simp
  have step: "scanProducer True cur prev i j T = Inr T' \<Longrightarrow> ?P T \<Longrightarrow> ?P T'" for cur prev i j T T'
    using scanProducer_zero_stalls [of cur prev i j "fst T" "fst (snd T)" "snd (snd T)"
        "fst T'" "fst (snd T')" "snd (snd T')"]
    by simp
  have "?P (hz, fw, st)"
  proof (cases se)
    case False
    with assms(1) init show ?thesis by (simp add: detectHazards_def Let_def)
  next
    case True
    with assms(1) have run: "scanInstructions True ru [1 ..< length prog] (initTables (length prog)) =
        Inr (hz, fw, st)"
      by (simp add: detectHazards_def Let_def)
    show ?thesis
      by (rule scanInstructions_invariant [where P = ?P, OF step run init])
  qed
  with assms(2) show ?thesis by simp
qed

lemma analyzer_edges_miss_names:
  assumes "detectHazards prog ru fe se = Inr (hz, fw, st)" and "map_of fw k = Some es"
  shows "\<not> edgeFound es stage NaN"
proof -
  let ?P = "\<lambda>T :: tables. \<forall>k es. map_of (fst (snd T)) k = Some es \<longrightarrow>
      (\<forall>e \<in> set es. \<exists>n. register e = ''$'' @ regMapText n)"
  obtain hz0 fw0 st0 where t: "initTables (length prog) = (hz0, fw0, st0)"
    by (cases "initTables (length prog)") auto
  have init: "?P (initTables (length prog))"
    using initTables_entries [OF t] t by fastforce
  have step: "scanProducer fe cur prev i j T = Inr T' \<Longrightarrow> ?P T \<Longrightarrow> ?P T'" for cur prev i j T T'
    using scanProducer_edge_names [of fe cur prev i j "fst T" "fst (snd T)" "snd (snd T)"
        "fst T'" "fst (snd T')" "snd (snd T')"]
    by simp
  have "?P (hz, fw, st)"
  proof (cases se)
    case False
    with assms(1) init show ?thesis by (simp add: detectHazards_def Let_def)
  next
    case True
    with assms(1) have run: "scanInstructions fe ru [1 ..< length prog] (initTables (length prog)) =
        Inr (hz, fw, st)"
      by (simp add: detectHazards_def Let_def)
    show ?thesis
      by (rule scanInstructions_invariant [where P = ?P, OF step run init])
  qed
  with assms(2) have names: "\<forall>e \<in> set es. \<exists>n. register e = ''$'' @ regMapText n" by simp
  have "find (\<lambda>f. register f = ''$rNaN'' \<and> toStage f = stage) es = None"
    using names regMapText_not_rNaN by (auto simp: find_None_iff)
  then show ?thesis by (simp add: edgeFound_def getRegName_NaN)
qed

subsection \<open>What the analyzer returns for a pair of its scan\<close>












































section \<open>Properties of the execution unit\<close>

text \<open>
  Claim C7. Whenever a call of the execution unit returns, in any stage and with any
  register file, memory and forwarding edges, the register file it leaves holds 0
  under \<open>$zero\<close>.
\<close>

theorem zero_register_reset:
  assumes "executeMIPSInstruction tr hex regs mem pc stage fwds cyc = Inr (regs', mem', pc')"
  shows "map_of regs' ''$zero'' = Some (Num 0)"
  using assms
  by (auto simp: executeMIPSInstruction_def Let_def AList.update_conv'
      split: sum.splits prod.splits)

theorem zero_register_reset_witness:
  "executeMIPSInstruction exampleDecoder ''20000005'' [(''$zero'', Num 7)] [] (Num 0) StageEX [] 3 =
     Inr ([(''$zero'', Num 0)], [], Undefined) \<and>
   map_of [(''$zero'', Num 0)] ''$zero'' = Some (Num 0)"
proof -
  have run: "executeMIPSInstruction exampleDecoder ''20000005'' [(''$zero'', Num 7)] []
      (Num 0) StageEX [] 3 = Inr ([(''$zero'', Num 0)], [], Undefined)"
    by code_simp
  from zero_register_reset [OF run] run show ?thesis by simp
qed

text \<open>
  Claim C8. A load or store of the MEM stage whose address, the forwarded base
  register value plus the offset taken as an unsigned 32-bit number, is outside the 32
  words of the memory: the call returns (no exception) with the memory as it was, no
  new program counter and the register file as it was but for the reset of \<open>$zero\<close>,
  which changes nothing when \<open>$zero\<close> holds 0.
\<close>

theorem mem_out_of_range_skipped:
  assumes "splitSpace (removeCommas (tr hex)) = op # rtText # offsetAndBase # rest"
    and "op \<in> set [''lw'', ''sw'', ''lbu'', ''lhu'', ''ll'', ''sb'', ''sh'', ''sc'']"
    and "matchOffsetBase offsetAndBase = Some (offsetStr, baseReg)"
    and "address = toUint32 (jsAdd
           (getForwardedValue fwds regs StageMEM (parseInt (stripDollar baseReg) None)
              (readProp regs (normalizeRegister baseReg)))
           (parseInt offsetStr None))"
    and "address < 0 \<or> address \<ge> 32"
  shows "executeMIPSInstruction tr hex regs mem pc StageMEM fwds cyc =
           Inr (AList.update ''$zero'' (Num 0) regs, mem, Undefined) \<and>
         (map_of regs ''$zero'' = Some (Num 0) \<longrightarrow>
          executeMIPSInstruction tr hex regs mem pc StageMEM fwds cyc = Inr (regs, mem, Undefined))"
proof -
  have ops: "memOperands (rtText # offsetAndBase # rest) regs StageMEM fwds =
      Inr (Some (rtText, normalizeRegister (stripDollar rtText), address))"
    using assms(3,4) by (simp add: memOperands_def operandText_def Let_def)
  have skip: "execMEM op (rtText # offsetAndBase # rest) regs mem StageMEM fwds = Inr (regs, mem)"
    using assms(2,5) ops by (auto simp: execMEM_def Let_def)
  have main: "executeMIPSInstruction tr hex regs mem pc StageMEM fwds cyc =
      Inr (AList.update ''$zero'' (Num 0) regs, mem, Undefined)"
    using assms(1) skip by (simp add: executeMIPSInstruction_def Let_def)
  show ?thesis using main by (simp add: AList.update_triv)
qed

theorem mem_out_of_range_skipped_witness:
  "splitSpace (removeCommas (exampleDecoder ''8d090028'')) = [''lw'', ''$t1'', ''40($t0)''] \<and>
   matchOffsetBase ''40($t0)'' = Some (''40'', ''t0'') \<and>
   toUint32 (jsAdd
      (getForwardedValue [] [(''$zero'', Num 0), (''$t0'', Num 7)] StageMEM
         (parseInt (stripDollar ''t0'') None)
         (readProp [(''$zero'', Num 0), (''$t0'', Num 7)] (normalizeRegister ''t0'')))
      (parseInt ''40'' None)) = 47 \<and>
   executeMIPSInstruction exampleDecoder ''8d090028'' [(''$zero'', Num 0), (''$t0'', Num 7)]
     [(3, Num 9)] (Num 0) StageMEM [] 4 =
     Inr ([(''$zero'', Num 0), (''$t0'', Num 7)], [(3, Num 9)], Undefined)"
proof -
  have parts: "splitSpace (removeCommas (exampleDecoder ''8d090028'')) =
      ''lw'' # ''$t1'' # ''40($t0)'' # []"
    by code_simp
  have op: "''lw'' \<in> set [''lw'', ''sw'', ''lbu'', ''lhu'', ''ll'', ''sb'', ''sh'', ''sc'']"
    by simp
  have match: "matchOffsetBase ''40($t0)'' = Some (''40'', ''t0'')"
    by code_simp
  have addr: "(47::int) = toUint32 (jsAdd
      (getForwardedValue [] [(''$zero'', Num 0), (''$t0'', Num 7)] StageMEM
         (parseInt (stripDollar ''t0'') None)
         (readProp [(''$zero'', Num 0), (''$t0'', Num 7)] (normalizeRegister ''t0'')))
      (parseInt ''40'' None))"
    by code_simp
  have range: "(47::int) < 0 \<or> (47::int) \<ge> 32"
    by simp
  from mem_out_of_range_skipped [where tr = exampleDecoder and hex = "''8d090028''"
      and mem = "[(3, Num 9)]" and pc = "Num 0" and cyc = 4, OF parts op match addr range]
    parts match addr
  show ?thesis by simp
qed

text \<open>
  The address is the sum that JavaScript computes. With the base \<open>2^54\<close> and the offset
  \<open>-1\<close> the sum \<open>2^54 - 1\<close> rounds to \<open>2^54\<close>, the address is 0, and the store is
  performed.
\<close>

lemma rounded_address_stores:
  "toUint32 (jsAdd (Num 18014398509481984) (parseInt ''-1'' None)) = 0 \<and>
   executeMIPSInstruction exampleDecoder ''ad09ffff''
     [(''$zero'', Num 0), (''$t0'', Num 18014398509481984), (''$t1'', Num 9)] [(0, Num 1)]
     (Num 0) StageMEM [] 4 =
     Inr ([(''$zero'', Num 0), (''$t0'', Num 18014398509481984), (''$t1'', Num 9)],
          [(0, Num 9)], Undefined)"
  by code_simp

text \<open>A fetch that no edge answers returns the default value.\<close>

lemma unanswered_fetch_default:
  "\<not> edgeFound fwds stage n \<Longrightarrow> getForwardedValue fwds regs stage n d = d"
  by (auto simp: getForwardedValue_def edgeFound_def Let_def split: option.splits)


section \<open>Properties of the transition\<close>

text \<open>
  Claim C5. A running, unfinished state with a positive pending stall counter: one step
  returns the same state with the cycle counter incremented and the stall counter
  decremented by one. Every other field is the one of the state before: the stage
  entries, the instruction sequence, the register file, the memory, the program
  counter, the three tables, the toggles and the two flags.
\<close>

theorem stall_tick_holds:
  assumes "isRunning s" and "\<not> isFinished s" and "currentStallCycles s > 0"
  shows "calculateNextState tr s =
           Inr (s\<lparr>currentCycle := currentCycle s + 1,
                  currentStallCycles := currentStallCycles s - 1\<rparr>)"
  using assms by (simp add: calculateNextState_def Let_def)

theorem stall_tick_holds_witness:
  "isRunning stalledState \<and> \<not> isFinished stalledState \<and> currentStallCycles stalledState > 0 \<and>
   calculateNextState exampleDecoder stalledState =
     Inr (stalledState\<lparr>currentCycle := 5, currentStallCycles := 1\<rparr>)"
proof -
  have h: "isRunning stalledState" "\<not> isFinished stalledState"
      "currentStallCycles stalledState > 0"
    by (simp_all add: stalledState_def noForwarding_def initialState_def)
  have v: "currentCycle stalledState = 4" "currentStallCycles stalledState = 2"
    by (simp_all add: stalledState_def noForwarding_def initialState_def)
  from stall_tick_holds [OF h, of exampleDecoder] h show ?thesis by (simp add: v)
qed

lemma redirectStages_Suc:
  "redirectStages s nc pc (Suc n) =
     AList.update (jsAdd (Num (int n)) pc)
       (stageOrNull (stageCount s) (nc - int n - 1 - calculatePrecedingStalls (stalls s) (jsAdd (Num (int n)) pc)))
       (redirectStages s nc pc n)"
  by (simp add: redirectStages_def)

lemma roundDouble_exact: "\<bar>x\<bar> \<le> 9007199254740992 \<Longrightarrow> roundDouble x = x"
  by (simp add: roundDouble_def)

lemma jsSlice_cases:
  "jsSlice newPC xs =
     (case newPC of
        Num pc \<Rightarrow> if 0 \<le> pc then drop (nat pc) xs else drop (length xs - nat (- pc)) xs
      | _ \<Rightarrow> xs)"
proof (cases newPC)
  case (Num pc)
  have "pc < 0 \<Longrightarrow> nat (max (int (length xs) + pc) 0) = length xs - nat (- pc)"
    by (simp add: max_def) linarith
  then show ?thesis using Num by (auto simp: jsSlice_def sliceStart_def min_def)
qed (simp_all add: jsSlice_def sliceStart_def)

lemma redirectStages_map_of:
  "map_of (redirectStages s nc newPC n) key =
     map_of (rev (map (\<lambda>k. (jsAdd (Num (int k)) newPC,
                           stageOrNull (stageCount s)
                             (nc - int k - 1 -
                              calculatePrecedingStalls (stalls s) (jsAdd (Num (int k)) newPC))))
                   [0 ..< n])) key"
proof (induction n)
  case 0
  then show ?case by (simp add: redirectStages_def)
next
  case (Suc n)
  then show ?case by (simp add: redirectStages_Suc AList.update_conv')
qed

lemma redirectStages_entry:
  assumes "\<bar>pc\<bar> + int n \<le> 9007199254740992" and "k < n"
  shows "map_of (redirectStages s nc (Num pc) n) (Num (int k + pc)) =
     Some (stageOrNull (stageCount s)
             (nc - int k - 1 - sum_list (map (stallAt (stalls s)) [0 ..< nat (int k + pc)])))"
  using assms
proof (induction n)
  case 0
  then show ?case by simp
next
  case (Suc n)
  have exact: "roundDouble (int n + pc) = int n + pc"
    using Suc.prems(1) by (intro roundDouble_exact) linarith
  show ?case
  proof (cases "k = n")
    case True
    then show ?thesis
      by (simp add: redirectStages_Suc AList.update_conv' jsAdd_def exact
          calculatePrecedingStalls_def)
  next
    case False
    with Suc.prems have "k < n" "\<bar>pc\<bar> + int n \<le> 9007199254740992" by simp_all
    with Suc.IH False show ?thesis
      by (simp add: redirectStages_Suc AList.update_conv' jsAdd_def exact)
  qed
qed

lemma jsAdd_not_number: "\<forall>pc. newPC \<noteq> Num pc \<Longrightarrow> jsAdd a newPC = NaN"
  by (cases a; cases newPC) (simp_all add: jsAdd_def)

lemma redirectStages_not_number:
  assumes "\<forall>pc. newPC \<noteq> Num pc"
  shows "redirectStages s nc newPC n =
     (if n = 0 then [] else [(NaN, stageOrNull (stageCount s) (nc - int (n - 1) - 1))])"
proof (induction n)
  case 0
  then show ?case by (simp add: redirectStages_def)
next
  case (Suc n)
  then show ?case
    by (simp add: redirectStages_Suc jsAdd_not_number [OF assms] calculatePrecedingStalls_def)
qed

lemma jsSlice_not_number: "\<forall>pc. newPC \<noteq> Num pc \<Longrightarrow> jsSlice newPC xs = xs"
  by (cases newPC) (simp_all add: jsSlice_def sliceStart_def)

lemma length_jsSlice: "length (jsSlice newPC xs) \<le> length xs"
  by (simp add: jsSlice_def)

lemma redirect_state:
  assumes "isRunning s" and "\<not> isFinished s" and "\<not> currentStallCycles s > 0"
    and "advanceAll tr s (currentCycle s + 1) (enumerate 0 (instructions s))
           ([], currentStallCycles s, registers s, memory s, PC s) =
         Inr (stages, stall, regs, mem, newPC)"
    and "\<not> jsStrictEq newPC (PC s)"
    and "\<not> currentCycle s + 1 > completionCycleOf s"
  shows "calculateNextState tr s =
     Inr (s\<lparr>instructions := jsSlice newPC (instructions s),
            currentCycle := currentCycle s + 1,
            instructionStages :=
              redirectStages s (currentCycle s + 1) newPC
                (length (jsSlice newPC (instructions s))),
            isRunning := True, isFinished := False,
            currentStallCycles := stall, registers := regs, memory := mem, PC := newPC\<rparr>)"
  using assms by (simp add: calculateNextState_def Let_def)

text \<open>
  Claim C6, as amended. A step of a running, unfinished state with no pending stall, in
  which the \<open>forEach\<close> ends with a program counter \<open>newPC\<close> that is not strictly equal to
  the current one and the simulation does not finish. The new instruction sequence is
  \<open>instructions.slice(newPC)\<close>: the old sequence from place \<open>newPC\<close> when \<open>newPC\<close> is a
  number that is not negative, the last \<open>-newPC\<close> instructions of the old sequence (all
  of it when there are fewer) when \<open>newPC\<close> is negative, and the whole old sequence when
  \<open>newPC\<close> is no number. The three tables, and so the stall table, are unchanged.

  The stage table is written anew, for each place \<open>k\<close> of the new sequence in turn,
  under the key \<open>k + newPC\<close>, with the stage
  \<open>nextCycle - k - 1 - precedingStalls(k + newPC)\<close>, or \<open>null\<close> when this is not a
  stage; a later place overwrites an earlier one with the same key. For a number
  \<open>newPC\<close> in the range where \<open>k + newPC\<close> is exact the keys differ, and
  \<open>precedingStalls(k + newPC)\<close> is the sum of the stall entries of the old places
  \<open>0, ..., k + newPC - 1\<close>. When \<open>newPC\<close> is no number every key is \<open>NaN\<close>, and the table
  holds the one entry of the last place, with no preceding stall.
\<close>

theorem redirect_truncates:
  assumes "isRunning s" and "\<not> isFinished s" and "\<not> currentStallCycles s > 0"
    and "advanceAll tr s (currentCycle s + 1) (enumerate 0 (instructions s))
           ([], currentStallCycles s, registers s, memory s, PC s) =
         Inr (stages, stall, regs, mem, newPC)"
    and "\<not> jsStrictEq newPC (PC s)"
    and "\<not> currentCycle s + 1 > completionCycleOf s"
  shows "\<exists>s'. calculateNextState tr s = Inr s' \<and>
     instructions s' =
       (case newPC of
          Num pc \<Rightarrow> if 0 \<le> pc then drop (nat pc) (instructions s)
                    else drop (length (instructions s) - nat (- pc)) (instructions s)
        | _ \<Rightarrow> instructions s) \<and>
     PC s' = newPC \<and> currentCycle s' = currentCycle s + 1 \<and>
     isRunning s' \<and> \<not> isFinished s' \<and>
     stalls s' = stalls s \<and> hazards s' = hazards s \<and> forwardings s' = forwardings s \<and>
     registers s' = regs \<and> memory s' = mem \<and> currentStallCycles s' = stall \<and>
     (\<forall>key. map_of (instructionStages s') key =
        map_of (rev (map (\<lambda>k. (jsAdd (Num (int k)) newPC,
                              stageOrNull (stageCount s)
                                (currentCycle s + 1 - int k - 1 -
                                 calculatePrecedingStalls (stalls s)
                                   (jsAdd (Num (int k)) newPC))))
                      [0 ..< length (instructions s')])) key) \<and>
     (\<forall>pc. newPC = Num pc \<and> \<bar>pc\<bar> + int (length (instructions s)) \<le> 9007199254740992 \<longrightarrow>
        (\<forall>k < length (instructions s').
           map_of (instructionStages s') (Num (int k + pc)) =
             Some (stageOrNull (stageCount s)
                     (currentCycle s + 1 - int k - 1 -
                      sum_list (map (stallAt (stalls s)) [0 ..< nat (int k + pc)]))))) \<and>
     ((\<forall>pc. newPC \<noteq> Num pc) \<longrightarrow>
        instructionStages s' =
          (if instructions s = [] then []
           else [(NaN, stageOrNull (stageCount s)
                         (currentCycle s + 1 - int (length (instructions s) - 1) - 1))]))"
proof -
  let ?new = "jsSlice newPC (instructions s)"
  let ?s' = "s\<lparr>instructions := ?new,
                currentCycle := currentCycle s + 1,
                instructionStages := redirectStages s (currentCycle s + 1) newPC (length ?new),
                isRunning := True, isFinished := False,
                currentStallCycles := stall, registers := regs, memory := mem, PC := newPC\<rparr>"
  have step: "calculateNextState tr s = Inr ?s'"
    by (rule redirect_state [OF assms])
  have entries: "\<forall>pc. newPC = Num pc \<and>
        \<bar>pc\<bar> + int (length (instructions s)) \<le> 9007199254740992 \<longrightarrow>
        (\<forall>k < length ?new.
           map_of (redirectStages s (currentCycle s + 1) newPC (length ?new)) (Num (int k + pc)) =
             Some (stageOrNull (stageCount s)
                     (currentCycle s + 1 - int k - 1 -
                      sum_list (map (stallAt (stalls s)) [0 ..< nat (int k + pc)]))))"
  proof (intro allI impI)
    fix pc k
    assume a: "newPC = Num pc \<and> \<bar>pc\<bar> + int (length (instructions s)) \<le> 9007199254740992"
      and k: "k < length ?new"
    from a length_jsSlice [of newPC "instructions s"]
    have "\<bar>pc\<bar> + int (length ?new) \<le> 9007199254740992" by linarith
    from redirectStages_entry [OF this k] a
    show "map_of (redirectStages s (currentCycle s + 1) newPC (length ?new)) (Num (int k + pc)) =
             Some (stageOrNull (stageCount s)
                     (currentCycle s + 1 - int k - 1 -
                      sum_list (map (stallAt (stalls s)) [0 ..< nat (int k + pc)])))"
      by simp
  qed
  have nan: "(\<forall>pc. newPC \<noteq> Num pc) \<longrightarrow>
        redirectStages s (currentCycle s + 1) newPC (length ?new) =
          (if instructions s = [] then []
           else [(NaN, stageOrNull (stageCount s)
                         (currentCycle s + 1 - int (length (instructions s) - 1) - 1))])"
    by (simp add: redirectStages_not_number jsSlice_not_number)
  show ?thesis
    apply (rule exI [of _ ?s'])
    using step entries nan
    by (simp add: jsSlice_cases [symmetric] redirectStages_map_of)
qed

lemma parse_10000001:
  "parseInstruction ''10000001'' = \<lparr>rs = 0, rt = 0, rd = 0, opcode = 4, funct = 0, type = I,
     isLoad = False, isStore = False\<rparr>"
  by code_simp

lemma decodeAll_branch:
  "decodeAll branchProgram = [(0, parseInstruction ''10000001''), (1, parseInstruction ''20080002''),
     (2, parseInstruction ''21090003'')]"
  by (simp add: decodeAll_def branchProgram_def)

lemma branchProgram_tables:
  "detectHazards branchProgram (decodeAll branchProgram) True True =
     Inr ([(0, noHazard), (1, noHazard),
           (2, \<lparr>hazardType = RAW,
                description = ''RAW hazard: rs($t0) depends on instruction 1 (forwarded)'',
                canForward = True, stallCycles = 0\<rparr>)],
          [(0, []), (1, []),
           (2, [\<lparr>fromIndex = 1, toIndex = 2, fromStage = StageEX, toStage = StageEX,
                 register = ''$t0''\<rparr>])],
          [(0, 0), (1, 0), (2, 0)])"
  unfolding decodeAll_branch parse_10000001 parse_20080002 parse_21090003 useAddiT0_def useAddiT1T0_def
  by (simp add: detectHazards_def branchProgram_def initTables_Suc3 producers_Suc
     scanProducer_def rawHazard_def recordRaw_def appendEdge_def Let_def regMapText_def regMap_def
     intToString_def digitsOf.simps)

lemma branch_start:
  "startSimulation initialState branchProgram =
     Inr (branchState\<lparr>currentCycle := 1,
            instructionStages := [(Num 0, Some 0), (Num 1, None), (Num 2, None)]\<rparr>)"
  using branchProgram_tables
  by (simp add: startSimulation_def Let_def branchState_def initialState_def
      DEFAULT_STAGE_COUNT_def stageOrNull_def)
     (simp add: branchProgram_def numeral_3_eq_3)

lemma no_preceding_stalls:
  "calculatePrecedingStalls [(0, 0), (Suc 0, 0), (2, 0)] idx = 0"
proof -
  have "stallAt [(0, 0), (Suc 0, 0), (2, 0)] = (\<lambda>i. 0)"
    by (auto simp: stallAt_def fun_eq_iff)
  then show ?thesis
    by (cases idx) (simp_all add: calculatePrecedingStalls_def)
qed

lemma branchState_fields:
  "instructions branchState = [''10000001'', ''20080002'', ''21090003'']"
  "stalls branchState = [(0, 0), (Suc 0, 0), (2, 0)]"
  "stageCount branchState = 5"
  "currentCycle branchState = 2"
  "isRunning branchState"
  "\<not> isFinished branchState"
  "currentStallCycles branchState = 0"
  "PC branchState = Num 0"
  "registers branchState = initialRegisters"
  "memory branchState = initialMemory"
  "map_of (forwardings branchState) 0 = Some []"
  "map_of (forwardings branchState) (Suc 0) = Some []"
  "map_of (forwardings branchState) 2 = Some [\<lparr>fromIndex = 1, toIndex = 2,
     fromStage = StageEX, toStage = StageEX, register = ''$t0''\<rparr>]"
  by (simp_all add: branchState_def initialState_def branchProgram_def DEFAULT_STAGE_COUNT_def)

lemma advance_waiting:
  assumes "stageIndex = nextCycle - int index - 1 - calculatePrecedingStalls (stalls s) (Num (int index))"
    and "stageIndex = 0 \<or> stageIndex = 1" and "stageCount s = 5"
    and "map_of (stalls s) index = Some 0"
  shows "advanceInstruction tr s nextCycle index inst (stages, stall, regs, mem, pc) =
     Inr (AList.update (Num (int index)) (Some stageIndex) stages, stall, regs, mem, pc)"
  using assms by (auto simp: advanceInstruction_def Let_def)

lemma advance_absent:
  assumes "stageIndex = nextCycle - int index - 1 - calculatePrecedingStalls (stalls s) (Num (int index))"
    and "stageIndex < 0"
  shows "advanceInstruction tr s nextCycle index inst (stages, stall, regs, mem, pc) =
     Inr (AList.update (Num (int index)) None stages, stall, regs, mem, pc)"
  using assms by (auto simp: advanceInstruction_def Let_def)

lemma branch_first_tick:
  "calculateNextState exampleDecoder
      (branchState\<lparr>currentCycle := 1,
         instructionStages := [(Num 0, Some 0), (Num 1, None), (Num 2, None)]\<rparr>) =
      Inr branchState"
proof -
  let ?s = "branchState\<lparr>currentCycle := 1,
         instructionStages := [(Num 0, Some 0), (Num 1, None), (Num 2, None)]\<rparr>"
  have a0: "advanceInstruction exampleDecoder ?s 2 0 ''10000001''
      ([], 0, initialRegisters, initialMemory, Num 0) =
      Inr ([(Num 0, Some 1)], 0, initialRegisters, initialMemory, Num 0)"
    using advance_waiting [where stageIndex = 1 and nextCycle = 2 and index = 0 and s = "?s"
        and stages = "[]"]
    by (simp add: branchState_fields no_preceding_stalls)
  have a1: "advanceInstruction exampleDecoder ?s 2 (Suc 0) ''20080002''
      ([(Num 0, Some 1)], 0, initialRegisters, initialMemory, Num 0) =
      Inr ([(Num 0, Some 1), (Num 1, Some 0)], 0, initialRegisters, initialMemory, Num 0)"
    using advance_waiting [where stageIndex = 0 and nextCycle = 2 and index = "Suc 0"
        and s = "?s" and stages = "[(Num 0, Some 1)]"]
    by (simp add: branchState_fields no_preceding_stalls)
  have a2: "advanceInstruction exampleDecoder ?s 2 (Suc (Suc 0)) ''21090003''
      ([(Num 0, Some 1), (Num 1, Some 0)], 0, initialRegisters, initialMemory, Num 0) =
      Inr ([(Num 0, Some 1), (Num 1, Some 0), (Num 2, None)], 0, initialRegisters,
           initialMemory, Num 0)"
    using advance_absent [where stageIndex = "-1" and nextCycle = 2 and index = "Suc (Suc 0)"
        and s = "?s" and stages = "[(Num 0, Some 1), (Num 1, Some 0)]"]
    by (simp add: branchState_fields no_preceding_stalls)
  have all: "advanceAll exampleDecoder ?s 2 (enumerate 0 (instructions ?s))
      ([], currentStallCycles ?s, registers ?s, memory ?s, PC ?s) =
      Inr ([(Num 0, Some 1), (Num 1, Some 0), (Num 2, None)], 0, initialRegisters,
           initialMemory, Num 0)"
    by (simp add: branchState_fields a0 a1 a2)
  have cc: "completionCycleOf ?s = 7"
    by (simp add: completionCycleOf_def branchState_fields)
  have "calculateNextState exampleDecoder ?s =
      Inr (?s\<lparr>currentCycle := 2,
             instructionStages := [(Num 0, Some 1), (Num 1, Some 0), (Num 2, None)],
             isRunning := True, isFinished := False, currentStallCycles := 0,
             registers := initialRegisters, memory := initialMemory, PC := Num 0\<rparr>)"
    using all by (simp add: calculateNextState_def Let_def cc branchState_fields jsStrictEq_def)
  also have "?s\<lparr>currentCycle := 2,
             instructionStages := [(Num 0, Some 1), (Num 1, Some 0), (Num 2, None)],
             isRunning := True, isFinished := False, currentStallCycles := 0,
             registers := initialRegisters, memory := initialMemory, PC := Num 0\<rparr> = branchState"
    by (simp add: branchState_def initialState_def)
  finally show ?thesis .
qed

lemma branch_reached:
  "runSteps exampleDecoder 1 (startSimulation initialState branchProgram) = Inr branchState"
  by (simp add: branch_start branch_first_tick)

lemma beq_exec:
  "executeMIPSInstruction exampleDecoder ''10000001'' initialRegisters initialMemory (Num 0)
     StageEX [] cyc = Inr (initialRegisters, initialMemory, Num 2)"
  by code_simp

lemma branch_second_tick:
  "advanceAll exampleDecoder branchState (currentCycle branchState + 1)
     (enumerate 0 (instructions branchState))
     ([], currentStallCycles branchState, registers branchState, memory branchState,
      PC branchState) =
   Inr ([(Num 0, Some 2), (Num 1, Some 1), (Num 2, Some 0)], 0, initialRegisters,
        initialMemory, Num 2)"
proof -
  have a0: "advanceInstruction exampleDecoder branchState 3 0 ''10000001''
      ([], 0, initialRegisters, initialMemory, Num 0) =
      Inr ([(Num 0, Some 2)], 0, initialRegisters, initialMemory, Num 2)"
    by (simp add: advanceInstruction_def Let_def branchState_fields no_preceding_stalls beq_exec)
  have a1: "advanceInstruction exampleDecoder branchState 3 (Suc 0) ''20080002''
      ([(Num 0, Some 2)], 0, initialRegisters, initialMemory, Num 2) =
      Inr ([(Num 0, Some 2), (Num 1, Some 1)], 0, initialRegisters, initialMemory, Num 2)"
    using advance_waiting [where stageIndex = 1 and nextCycle = 3 and index = "Suc 0"
        and s = branchState and stages = "[(Num 0, Some 2)]"]
    by (simp add: branchState_fields no_preceding_stalls)
  have a2: "advanceInstruction exampleDecoder branchState 3 (Suc (Suc 0)) ''21090003''
      ([(Num 0, Some 2), (Num 1, Some 1)], 0, initialRegisters, initialMemory, Num 2) =
      Inr ([(Num 0, Some 2), (Num 1, Some 1), (Num 2, Some 0)], 0, initialRegisters,
           initialMemory, Num 2)"
    using advance_waiting [where stageIndex = 0 and nextCycle = 3 and index = "Suc (Suc 0)"
        and s = branchState and stages = "[(Num 0, Some 2), (Num 1, Some 1)]"]
    by (simp add: branchState_fields no_preceding_stalls)
  show ?thesis
    by (simp add: branchState_fields a0 a1 a2)
qed

lemma parse_1000fffd:
  "parseInstruction ''1000fffd'' = \<lparr>rs = 0, rt = 0, rd = 0, opcode = 4, funct = 0, type = I,
     isLoad = False, isStore = False\<rparr>"
  by code_simp

lemma decodeAll_backward:
  "decodeAll backwardProgram = [(0, parseInstruction ''1000fffd''), (1, parseInstruction ''20080002''),
     (2, parseInstruction ''21090003'')]"
  by (simp add: decodeAll_def backwardProgram_def)

lemma backwardProgram_tables:
  "detectHazards backwardProgram (decodeAll backwardProgram) True True =
     Inr (hazards branchState, forwardings branchState, stalls branchState)"
  unfolding decodeAll_backward parse_1000fffd parse_20080002 parse_21090003 useAddiT0_def useAddiT1T0_def
  by (simp add: detectHazards_def backwardProgram_def initTables_Suc3 producers_Suc
     scanProducer_def rawHazard_def recordRaw_def appendEdge_def Let_def regMapText_def regMap_def
     intToString_def digitsOf.simps branchState_def initialState_def)

lemma backward_start:
  "startSimulation initialState backwardProgram =
     Inr (backwardState\<lparr>currentCycle := 1,
            instructionStages := [(Num 0, Some 0), (Num 1, None), (Num 2, None)]\<rparr>)"
  using backwardProgram_tables
  by (simp add: startSimulation_def Let_def backwardState_def branchState_def initialState_def
      DEFAULT_STAGE_COUNT_def stageOrNull_def)
     (simp add: backwardProgram_def numeral_3_eq_3)

lemma advance_retired:
  assumes "stageIndex = nextCycle - int index - 1 - calculatePrecedingStalls (stalls s) (Num (int index))"
    and "stageIndex \<ge> stageCount s"
  shows "advanceInstruction tr s nextCycle index inst (stages, stall, regs, mem, pc) =
     Inr (AList.update (Num (int index)) None stages, stall, regs, mem, pc)"
  using assms by (auto simp: advanceInstruction_def Let_def)

lemma backwardState_fields:
  "instructions backwardState = [''1000fffd'', ''20080002'', ''21090003'']"
  "stalls backwardState = [(0, 0), (Suc 0, 0), (2, 0)]"
  "stageCount backwardState = 5"
  "currentCycle backwardState = 2"
  "isRunning backwardState"
  "\<not> isFinished backwardState"
  "currentStallCycles backwardState = 0"
  "PC backwardState = Num 0"
  "registers backwardState = initialRegisters"
  "memory backwardState = initialMemory"
  "map_of (forwardings backwardState) 0 = Some []"
  by (simp_all add: backwardState_def branchState_def initialState_def backwardProgram_def
      DEFAULT_STAGE_COUNT_def)

lemma backward_first_tick:
  "calculateNextState exampleDecoder
      (backwardState\<lparr>currentCycle := 1,
         instructionStages := [(Num 0, Some 0), (Num 1, None), (Num 2, None)]\<rparr>) =
      Inr backwardState"
proof -
  let ?s = "backwardState\<lparr>currentCycle := 1,
         instructionStages := [(Num 0, Some 0), (Num 1, None), (Num 2, None)]\<rparr>"
  have a0: "advanceInstruction exampleDecoder ?s 2 0 ''1000fffd''
      ([], 0, initialRegisters, initialMemory, Num 0) =
      Inr ([(Num 0, Some 1)], 0, initialRegisters, initialMemory, Num 0)"
    using advance_waiting [where stageIndex = 1 and nextCycle = 2 and index = 0 and s = "?s"
        and stages = "[]"]
    by (simp add: backwardState_fields no_preceding_stalls)
  have a1: "advanceInstruction exampleDecoder ?s 2 (Suc 0) ''20080002''
      ([(Num 0, Some 1)], 0, initialRegisters, initialMemory, Num 0) =
      Inr ([(Num 0, Some 1), (Num 1, Some 0)], 0, initialRegisters, initialMemory, Num 0)"
    using advance_waiting [where stageIndex = 0 and nextCycle = 2 and index = "Suc 0"
        and s = "?s" and stages = "[(Num 0, Some 1)]"]
    by (simp add: backwardState_fields no_preceding_stalls)
  have a2: "advanceInstruction exampleDecoder ?s 2 (Suc (Suc 0)) ''21090003''
      ([(Num 0, Some 1), (Num 1, Some 0)], 0, initialRegisters, initialMemory, Num 0) =
      Inr ([(Num 0, Some 1), (Num 1, Some 0), (Num 2, None)], 0, initialRegisters,
           initialMemory, Num 0)"
    using advance_absent [where stageIndex = "-1" and nextCycle = 2 and index = "Suc (Suc 0)"
        and s = "?s" and stages = "[(Num 0, Some 1), (Num 1, Some 0)]"]
    by (simp add: backwardState_fields no_preceding_stalls)
  have all: "advanceAll exampleDecoder ?s 2 (enumerate 0 (instructions ?s))
      ([], currentStallCycles ?s, registers ?s, memory ?s, PC ?s) =
      Inr ([(Num 0, Some 1), (Num 1, Some 0), (Num 2, None)], 0, initialRegisters,
           initialMemory, Num 0)"
    by (simp add: backwardState_fields a0 a1 a2)
  have cc: "completionCycleOf ?s = 7"
    by (simp add: completionCycleOf_def backwardState_fields)
  have "calculateNextState exampleDecoder ?s =
      Inr (?s\<lparr>currentCycle := 2,
             instructionStages := [(Num 0, Some 1), (Num 1, Some 0), (Num 2, None)],
             isRunning := True, isFinished := False, currentStallCycles := 0,
             registers := initialRegisters, memory := initialMemory, PC := Num 0\<rparr>)"
    using all by (simp add: calculateNextState_def Let_def cc backwardState_fields jsStrictEq_def)
  also have "?s\<lparr>currentCycle := 2,
             instructionStages := [(Num 0, Some 1), (Num 1, Some 0), (Num 2, None)],
             isRunning := True, isFinished := False, currentStallCycles := 0,
             registers := initialRegisters, memory := initialMemory, PC := Num 0\<rparr> = backwardState"
    by (simp add: backwardState_def branchState_def initialState_def)
  finally show ?thesis .
qed

lemma backward_reached:
  "runSteps exampleDecoder 1 (startSimulation initialState backwardProgram) = Inr backwardState"
  by (simp add: backward_start backward_first_tick)

lemma backward_exec:
  "executeMIPSInstruction exampleDecoder ''1000fffd'' initialRegisters initialMemory (Num 0)
     StageEX [] cyc = Inr (initialRegisters, initialMemory, Num (- 2))"
  by code_simp

lemma backward_second_tick:
  "advanceAll exampleDecoder backwardState (currentCycle backwardState + 1)
     (enumerate 0 (instructions backwardState))
     ([], currentStallCycles backwardState, registers backwardState, memory backwardState,
      PC backwardState) =
   Inr ([(Num 0, Some 2), (Num 1, Some 1), (Num 2, Some 0)], 0, initialRegisters,
        initialMemory, Num (- 2))"
proof -
  have a0: "advanceInstruction exampleDecoder backwardState 3 0 ''1000fffd''
      ([], 0, initialRegisters, initialMemory, Num 0) =
      Inr ([(Num 0, Some 2)], 0, initialRegisters, initialMemory, Num (- 2))"
    by (simp add: advanceInstruction_def Let_def backwardState_fields no_preceding_stalls
        backward_exec)
  have a1: "advanceInstruction exampleDecoder backwardState 3 (Suc 0) ''20080002''
      ([(Num 0, Some 2)], 0, initialRegisters, initialMemory, Num (- 2)) =
      Inr ([(Num 0, Some 2), (Num 1, Some 1)], 0, initialRegisters, initialMemory, Num (- 2))"
    using advance_waiting [where stageIndex = 1 and nextCycle = 3 and index = "Suc 0"
        and s = backwardState and stages = "[(Num 0, Some 2)]"]
    by (simp add: backwardState_fields no_preceding_stalls)
  have a2: "advanceInstruction exampleDecoder backwardState 3 (Suc (Suc 0)) ''21090003''
      ([(Num 0, Some 2), (Num 1, Some 1)], 0, initialRegisters, initialMemory, Num (- 2)) =
      Inr ([(Num 0, Some 2), (Num 1, Some 1), (Num 2, Some 0)], 0, initialRegisters,
           initialMemory, Num (- 2))"
    using advance_waiting [where stageIndex = 0 and nextCycle = 3 and index = "Suc (Suc 0)"
        and s = backwardState and stages = "[(Num 0, Some 2), (Num 1, Some 1)]"]
    by (simp add: backwardState_fields no_preceding_stalls)
  show ?thesis
    by (simp add: backwardState_fields a0 a1 a2)
qed

lemma redirectStages_two:
  "redirectStages s nc pc (Suc (Suc 0)) =
     AList.update (jsAdd (Num 1) pc)
       (stageOrNull (stageCount s) (nc - 1 - 1 - calculatePrecedingStalls (stalls s) (jsAdd (Num 1) pc)))
       [(jsAdd (Num 0) pc,
         stageOrNull (stageCount s) (nc - 0 - 1 - calculatePrecedingStalls (stalls s) (jsAdd (Num 0) pc)))]"
  by (simp add: redirectStages_def)

lemma stalledBranchState_fields:
  "instructions stalledBranchState = [''20080002'', ''21090003'', ''10000001'', ''20090001'']"
  "stalls stalledBranchState = [(0, 0), (Suc 0, 2), (2, 0), (3, 0)]"
  "stageCount stalledBranchState = 5"
  "currentCycle stalledBranchState = 6"
  "isRunning stalledBranchState"
  "\<not> isFinished stalledBranchState"
  "currentStallCycles stalledBranchState = 0"
  "PC stalledBranchState = Num 0"
  "registers stalledBranchState = AList.update ''$t0'' (Num 2) initialRegisters"
  "memory stalledBranchState = initialMemory"
  "map_of (forwardings stalledBranchState) (Suc (Suc 0)) = Some []"
  by (simp_all add: stalledBranchState_def noForwarding_def initialState_def
      stalledBranchProgram_def DEFAULT_STAGE_COUNT_def)

lemma stalled_preceding:
  "calculatePrecedingStalls [(0, 0), (Suc 0, 2), (2, 0), (3, 0)] (Num 0) = 0"
  "calculatePrecedingStalls [(0, 0), (Suc 0, 2), (2, 0), (3, 0)] (Num 1) = 0"
  "calculatePrecedingStalls [(0, 0), (Suc 0, 2), (2, 0), (3, 0)] (Num 2) = 2"
  "calculatePrecedingStalls [(0, 0), (Suc 0, 2), (2, 0), (3, 0)] (Num 3) = 2"
  by code_simp+

lemma stalled_sums:
  "sum_list (map (stallAt [(0, 0), (Suc 0, 2), (2, 0), (3, 0)]) [0 ..< 2]) = 2"
  "sum_list (map (stallAt [(0, 0), (Suc 0, 2), (2, 0), (3, 0)]) [0 ..< 3]) = 2"
  by code_simp+

lemma stalled_beq_exec:
  "executeMIPSInstruction exampleDecoder ''10000001'' (AList.update ''$t0'' (Num 2) initialRegisters)
     initialMemory (Num 0) StageEX [] cyc =
   Inr (AList.update ''$t0'' (Num 2) initialRegisters, initialMemory, Num 2)"
  by code_simp

lemma stalledBranch_tick:
  "advanceAll exampleDecoder stalledBranchState (currentCycle stalledBranchState + 1)
     (enumerate 0 (instructions stalledBranchState))
     ([], currentStallCycles stalledBranchState, registers stalledBranchState,
      memory stalledBranchState, PC stalledBranchState) =
   Inr ([(Num 0, None), (Num 1, None), (Num 2, Some 2), (Num 3, Some 1)], 0,
        AList.update ''$t0'' (Num 2) initialRegisters, initialMemory, Num 2)"
proof -
  let ?r = "AList.update ''$t0'' (Num 2) initialRegisters"
  have a0: "advanceInstruction exampleDecoder stalledBranchState 7 0 ''20080002''
      ([], 0, ?r, initialMemory, Num 0) =
      Inr ([(Num 0, None)], 0, ?r, initialMemory, Num 0)"
    using advance_retired [where stageIndex = 6 and nextCycle = 7 and index = 0
        and s = stalledBranchState and stages = "[]"]
    by (simp add: stalledBranchState_fields stalled_preceding)
  have a1: "advanceInstruction exampleDecoder stalledBranchState 7 (Suc 0) ''21090003''
      ([(Num 0, None)], 0, ?r, initialMemory, Num 0) =
      Inr ([(Num 0, None), (Num 1, None)], 0, ?r, initialMemory, Num 0)"
    using advance_retired [where stageIndex = 5 and nextCycle = 7 and index = "Suc 0"
        and s = stalledBranchState and stages = "[(Num 0, None)]"]
    by (simp add: stalledBranchState_fields stalled_preceding)
  have a2: "advanceInstruction exampleDecoder stalledBranchState 7 (Suc (Suc 0)) ''10000001''
      ([(Num 0, None), (Num 1, None)], 0, ?r, initialMemory, Num 0) =
      Inr ([(Num 0, None), (Num 1, None), (Num 2, Some 2)], 0, ?r, initialMemory, Num 2)"
    by (simp add: advanceInstruction_def Let_def stalledBranchState_fields stalled_preceding
        stalled_beq_exec)
  have a3: "advanceInstruction exampleDecoder stalledBranchState 7 (Suc (Suc (Suc 0))) ''20090001''
      ([(Num 0, None), (Num 1, None), (Num 2, Some 2)], 0, ?r, initialMemory, Num 2) =
      Inr ([(Num 0, None), (Num 1, None), (Num 2, Some 2), (Num 3, Some 1)], 0, ?r,
           initialMemory, Num 2)"
    using advance_waiting [where stageIndex = 1 and nextCycle = 7 and index = "Suc (Suc (Suc 0))"
        and s = stalledBranchState and stages = "[(Num 0, None), (Num 1, None), (Num 2, Some 2)]"]
    by (simp add: stalledBranchState_fields stalled_preceding)
  show ?thesis
    by (simp add: stalledBranchState_fields a0 a1 a2 a3)
qed

text \<open>The state \<open>stalledBranchState\<close> is the one five ticks after the start.\<close>

lemma producers_three: "producers (Suc (Suc (Suc 0))) = [Suc (Suc 0), Suc 0, 0]"
  by (simp add: producers_def upt_conv_Cons)

lemma initTables_Suc4:
  "initTables (Suc (Suc (Suc (Suc 0)))) =
     ([(0, noHazard), (1, noHazard), (2, noHazard), (3, noHazard)],
      [(0, []), (1, []), (2, []), (3, [])],
      [(0, 0), (1, 0), (2, 0), (3, 0)])"
  unfolding initTables_Suc [of "Suc (Suc (Suc 0))"] initTables_Suc3 by simp

lemma decodeAll_stalledBranch:
  "decodeAll stalledBranchProgram =
     [(0, parseInstruction ''20080002''), (1, parseInstruction ''21090003''),
      (2, parseInstruction ''10000001''), (3, parseInstruction ''20090001'')]"
  by (simp add: decodeAll_def stalledBranchProgram_def)

lemma stalledBranch_tables:
  "detectHazards stalledBranchProgram (decodeAll stalledBranchProgram) False True =
     Inr (hazards stalledBranchState, forwardings stalledBranchState, stalls stalledBranchState)"
  unfolding decodeAll_stalledBranch parse_10000001 parse_20080002 parse_21090003 parse_20090001
    useAddiT0_def useAddiT1T0_def
  by (simp add: detectHazards_def stalledBranchProgram_def initTables_Suc4 producers_Suc
     producers_three scanProducer_def rawHazard_def recordRaw_def appendEdge_def Let_def
     regMapText_def regMap_def intToString_def digitsOf.simps stalledBranchState_def
     noForwarding_def initialState_def)

lemma stalledBranch_start:
  "startSimulation noForwarding stalledBranchProgram =
     Inr (stalledBranchState\<lparr>currentCycle := 1,
            instructionStages := [(Num 0, Some 0), (Num 1, None), (Num 2, None), (Num 3, None)],
            registers := initialRegisters\<rparr>)"
  using stalledBranch_tables
  by (simp add: startSimulation_def Let_def stalledBranchState_def noForwarding_def
      initialState_def DEFAULT_STAGE_COUNT_def stageOrNull_def)
     (simp add: stalledBranchProgram_def upt_conv_Cons)

lemma advance_fetch:
  assumes "nextCycle - int index - 1 - calculatePrecedingStalls (stalls s) (Num (int index)) = 0"
    and "stageCount s = 5"
  shows "advanceInstruction tr s nextCycle index inst (stages, stall, regs, mem, pc) =
     Inr (AList.update (Num (int index)) (Some 0) stages, stall, regs, mem, pc)"
  using assms by (auto simp: advanceInstruction_def Let_def split: option.splits)

lemma advance_decode_stall:
  assumes "nextCycle = int index + 2 + calculatePrecedingStalls (stalls s) (Num (int index))"
    and "stageCount s = 5" and "map_of (stalls s) index = Some v" and "v > 0"
  shows "advanceInstruction tr s nextCycle index inst (stages, 0, regs, mem, pc) =
     Inr (AList.update (Num (int index)) (Some 1) stages, v, regs, mem, pc)"
  using assms by (simp add: advanceInstruction_def Let_def)

lemma stalled_addi_exec:
  "executeMIPSInstruction exampleDecoder ''20080002'' initialRegisters initialMemory (Num 0)
     StageEX [] cyc =
   Inr (AList.update ''$t0'' (Num 2) initialRegisters, initialMemory, Undefined)"
  by code_simp

lemma stalled_wb_exec:
  "executeMIPSInstruction exampleDecoder ''21090003'' (AList.update ''$t0'' (Num 2) initialRegisters)
     initialMemory (Num 0) StageWB [] cyc =
   Inr (AList.update ''$t0'' (Num 2) initialRegisters, initialMemory, Undefined)"
  by code_simp

lemma stalledBranchState_more:
  "map_of (forwardings stalledBranchState) 0 = Some []"
  "map_of (forwardings stalledBranchState) (Suc 0) = Some []"
  by (simp_all add: stalledBranchState_def noForwarding_def initialState_def
      stalledBranchProgram_def DEFAULT_STAGE_COUNT_def)

lemma stalled_tick_2:
  "calculateNextState exampleDecoder
     (stalledBranchState\<lparr>currentCycle := 1,
        instructionStages := [(Num 0, Some 0), (Num 1, None), (Num 2, None), (Num 3, None)],
        registers := initialRegisters\<rparr>) =
   Inr (stalledBranchState\<lparr>currentCycle := 2,
          instructionStages := [(Num 0, Some 1), (Num 1, Some 0), (Num 2, None), (Num 3, None)],
          registers := initialRegisters\<rparr>)"
proof -
  let ?s = "stalledBranchState\<lparr>currentCycle := 1,
        instructionStages := [(Num 0, Some 0), (Num 1, None), (Num 2, None), (Num 3, None)],
        registers := initialRegisters\<rparr>"
  have a0: "advanceInstruction exampleDecoder ?s 2 0 ''20080002''
      ([], 0, initialRegisters, initialMemory, Num 0) =
      Inr ([(Num 0, Some 1)], 0, initialRegisters, initialMemory, Num 0)"
    using advance_waiting [where stageIndex = 1 and nextCycle = 2 and index = 0 and s = "?s"
        and stages = "[]"]
    by (simp add: stalledBranchState_fields stalled_preceding)
  have a1: "advanceInstruction exampleDecoder ?s 2 (Suc 0) ''21090003''
      ([(Num 0, Some 1)], 0, initialRegisters, initialMemory, Num 0) =
      Inr ([(Num 0, Some 1), (Num 1, Some 0)], 0, initialRegisters, initialMemory, Num 0)"
    using advance_fetch [where nextCycle = 2 and index = "Suc 0" and s = "?s"
        and stages = "[(Num 0, Some 1)]"]
    by (simp add: stalledBranchState_fields stalled_preceding)
  have a2: "advanceInstruction exampleDecoder ?s 2 (Suc (Suc 0)) ''10000001''
      ([(Num 0, Some 1), (Num 1, Some 0)], 0, initialRegisters, initialMemory, Num 0) =
      Inr ([(Num 0, Some 1), (Num 1, Some 0), (Num 2, None)], 0, initialRegisters,
           initialMemory, Num 0)"
    using advance_absent [where stageIndex = "-3" and nextCycle = 2 and index = "Suc (Suc 0)"
        and s = "?s" and stages = "[(Num 0, Some 1), (Num 1, Some 0)]"]
    by (simp add: stalledBranchState_fields stalled_preceding)
  have a3: "advanceInstruction exampleDecoder ?s 2 (Suc (Suc (Suc 0))) ''20090001''
      ([(Num 0, Some 1), (Num 1, Some 0), (Num 2, None)], 0, initialRegisters,
       initialMemory, Num 0) =
      Inr ([(Num 0, Some 1), (Num 1, Some 0), (Num 2, None), (Num 3, None)], 0,
           initialRegisters, initialMemory, Num 0)"
    using advance_absent [where stageIndex = "-4" and nextCycle = 2
        and index = "Suc (Suc (Suc 0))" and s = "?s"
        and stages = "[(Num 0, Some 1), (Num 1, Some 0), (Num 2, None)]"]
    by (simp add: stalledBranchState_fields stalled_preceding)
  have all: "advanceAll exampleDecoder ?s 2 (enumerate 0 (instructions ?s))
      ([], currentStallCycles ?s, registers ?s, memory ?s, PC ?s) =
      Inr ([(Num 0, Some 1), (Num 1, Some 0), (Num 2, None), (Num 3, None)], 0,
           initialRegisters, initialMemory, Num 0)"
    by (simp add: stalledBranchState_fields a0 a1 a2 a3)
  have cc: "completionCycleOf ?s = 10"
    by (simp add: completionCycleOf_def stalledBranchState_fields)
  have "calculateNextState exampleDecoder ?s =
      Inr (?s\<lparr>currentCycle := 2,
             instructionStages := [(Num 0, Some 1), (Num 1, Some 0), (Num 2, None), (Num 3, None)],
             isRunning := True, isFinished := False, currentStallCycles := 0,
             registers := initialRegisters, memory := initialMemory, PC := Num 0\<rparr>)"
    using all by (simp add: calculateNextState_def Let_def cc stalledBranchState_fields jsStrictEq_def)
  also have "?s\<lparr>currentCycle := 2,
             instructionStages := [(Num 0, Some 1), (Num 1, Some 0), (Num 2, None), (Num 3, None)],
             isRunning := True, isFinished := False, currentStallCycles := 0,
             registers := initialRegisters, memory := initialMemory, PC := Num 0\<rparr> =
      stalledBranchState\<lparr>currentCycle := 2,
          instructionStages := [(Num 0, Some 1), (Num 1, Some 0), (Num 2, None), (Num 3, None)],
          registers := initialRegisters\<rparr>"
    by (simp add: stalledBranchState_def noForwarding_def initialState_def)
  finally show ?thesis .
qed

lemma stalled_tick_3:
  "calculateNextState exampleDecoder
     (stalledBranchState\<lparr>currentCycle := 2,
        instructionStages := [(Num 0, Some 1), (Num 1, Some 0), (Num 2, None), (Num 3, None)],
        registers := initialRegisters\<rparr>) =
   Inr (stalledBranchState\<lparr>currentCycle := 3,
          instructionStages := [(Num 0, Some 2), (Num 1, Some 1), (Num 2, None), (Num 3, None)],
          currentStallCycles := 2\<rparr>)"
proof -
  let ?s = "stalledBranchState\<lparr>currentCycle := 2,
        instructionStages := [(Num 0, Some 1), (Num 1, Some 0), (Num 2, None), (Num 3, None)],
        registers := initialRegisters\<rparr>"
  let ?r = "AList.update ''$t0'' (Num 2) initialRegisters"
  have a0: "advanceInstruction exampleDecoder ?s 3 0 ''20080002''
      ([], 0, initialRegisters, initialMemory, Num 0) =
      Inr ([(Num 0, Some 2)], 0, ?r, initialMemory, Num 0)"
    by (simp add: advanceInstruction_def Let_def stalledBranchState_fields stalled_preceding
        stalledBranchState_more stalled_addi_exec)
  have a1: "advanceInstruction exampleDecoder ?s 3 (Suc 0) ''21090003''
      ([(Num 0, Some 2)], 0, ?r, initialMemory, Num 0) =
      Inr ([(Num 0, Some 2), (Num 1, Some 1)], 2, ?r, initialMemory, Num 0)"
    using advance_decode_stall [where nextCycle = 3 and index = "Suc 0"
        and s = "?s" and stages = "[(Num 0, Some 2)]" and v = 2]
    by (simp add: stalledBranchState_fields stalled_preceding)
  have a2: "advanceInstruction exampleDecoder ?s 3 (Suc (Suc 0)) ''10000001''
      ([(Num 0, Some 2), (Num 1, Some 1)], 2, ?r, initialMemory, Num 0) =
      Inr ([(Num 0, Some 2), (Num 1, Some 1), (Num 2, None)], 2, ?r, initialMemory, Num 0)"
    using advance_absent [where stageIndex = "-2" and nextCycle = 3 and index = "Suc (Suc 0)"
        and s = "?s" and stages = "[(Num 0, Some 2), (Num 1, Some 1)]"]
    by (simp add: stalledBranchState_fields stalled_preceding)
  have a3: "advanceInstruction exampleDecoder ?s 3 (Suc (Suc (Suc 0))) ''20090001''
      ([(Num 0, Some 2), (Num 1, Some 1), (Num 2, None)], 2, ?r, initialMemory, Num 0) =
      Inr ([(Num 0, Some 2), (Num 1, Some 1), (Num 2, None), (Num 3, None)], 2, ?r,
           initialMemory, Num 0)"
    using advance_absent [where stageIndex = "-3" and nextCycle = 3
        and index = "Suc (Suc (Suc 0))" and s = "?s"
        and stages = "[(Num 0, Some 2), (Num 1, Some 1), (Num 2, None)]"]
    by (simp add: stalledBranchState_fields stalled_preceding)
  have all: "advanceAll exampleDecoder ?s 3 (enumerate 0 (instructions ?s))
      ([], currentStallCycles ?s, registers ?s, memory ?s, PC ?s) =
      Inr ([(Num 0, Some 2), (Num 1, Some 1), (Num 2, None), (Num 3, None)], 2, ?r,
           initialMemory, Num 0)"
    by (simp add: stalledBranchState_fields a0 a1 a2 a3)
  have cc: "completionCycleOf ?s = 10"
    by (simp add: completionCycleOf_def stalledBranchState_fields)
  have "calculateNextState exampleDecoder ?s =
      Inr (?s\<lparr>currentCycle := 3,
             instructionStages := [(Num 0, Some 2), (Num 1, Some 1), (Num 2, None), (Num 3, None)],
             isRunning := True, isFinished := False, currentStallCycles := 2,
             registers := ?r, memory := initialMemory, PC := Num 0\<rparr>)"
    using all by (simp add: calculateNextState_def Let_def cc stalledBranchState_fields jsStrictEq_def)
  also have "?s\<lparr>currentCycle := 3,
             instructionStages := [(Num 0, Some 2), (Num 1, Some 1), (Num 2, None), (Num 3, None)],
             isRunning := True, isFinished := False, currentStallCycles := 2,
             registers := ?r, memory := initialMemory, PC := Num 0\<rparr> =
      stalledBranchState\<lparr>currentCycle := 3,
          instructionStages := [(Num 0, Some 2), (Num 1, Some 1), (Num 2, None), (Num 3, None)],
          currentStallCycles := 2\<rparr>"
    by (simp add: stalledBranchState_def noForwarding_def initialState_def)
  finally show ?thesis .
qed

lemma stalled_tick_4_5:
  "calculateNextState exampleDecoder
     (stalledBranchState\<lparr>currentCycle := 3,
        instructionStages := [(Num 0, Some 2), (Num 1, Some 1), (Num 2, None), (Num 3, None)],
        currentStallCycles := 2\<rparr>) =
   Inr (stalledBranchState\<lparr>currentCycle := 4,
          instructionStages := [(Num 0, Some 2), (Num 1, Some 1), (Num 2, None), (Num 3, None)],
          currentStallCycles := 1\<rparr>)"
  "calculateNextState exampleDecoder
     (stalledBranchState\<lparr>currentCycle := 4,
        instructionStages := [(Num 0, Some 2), (Num 1, Some 1), (Num 2, None), (Num 3, None)],
        currentStallCycles := 1\<rparr>) =
   Inr (stalledBranchState\<lparr>currentCycle := 5,
          instructionStages := [(Num 0, Some 2), (Num 1, Some 1), (Num 2, None), (Num 3, None)]\<rparr>)"
  by (simp_all add: calculateNextState_def Let_def stalledBranchState_def noForwarding_def
      initialState_def)

lemma stalled_tick_6:
  "calculateNextState exampleDecoder
     (stalledBranchState\<lparr>currentCycle := 5,
        instructionStages := [(Num 0, Some 2), (Num 1, Some 1), (Num 2, None), (Num 3, None)]\<rparr>) =
   Inr stalledBranchState"
proof -
  let ?s = "stalledBranchState\<lparr>currentCycle := 5,
        instructionStages := [(Num 0, Some 2), (Num 1, Some 1), (Num 2, None), (Num 3, None)]\<rparr>"
  let ?r = "AList.update ''$t0'' (Num 2) initialRegisters"
  have a0: "advanceInstruction exampleDecoder ?s 6 0 ''20080002''
      ([], 0, ?r, initialMemory, Num 0) =
      Inr ([(Num 0, None)], 0, ?r, initialMemory, Num 0)"
    using advance_retired [where stageIndex = 5 and nextCycle = 6 and index = 0
        and s = "?s" and stages = "[]"]
    by (simp add: stalledBranchState_fields stalled_preceding)
  have a1: "advanceInstruction exampleDecoder ?s 6 (Suc 0) ''21090003''
      ([(Num 0, None)], 0, ?r, initialMemory, Num 0) =
      Inr ([(Num 0, None), (Num 1, Some 4)], 0, ?r, initialMemory, Num 0)"
    by (simp add: advanceInstruction_def Let_def stalledBranchState_fields stalled_preceding
        stalledBranchState_more stalled_wb_exec)
  have a2: "advanceInstruction exampleDecoder ?s 6 (Suc (Suc 0)) ''10000001''
      ([(Num 0, None), (Num 1, Some 4)], 0, ?r, initialMemory, Num 0) =
      Inr ([(Num 0, None), (Num 1, Some 4), (Num 2, Some 1)], 0, ?r, initialMemory, Num 0)"
    using advance_waiting [where stageIndex = 1 and nextCycle = 6 and index = "Suc (Suc 0)"
        and s = "?s" and stages = "[(Num 0, None), (Num 1, Some 4)]"]
    by (simp add: stalledBranchState_fields stalled_preceding)
  have a3: "advanceInstruction exampleDecoder ?s 6 (Suc (Suc (Suc 0))) ''20090001''
      ([(Num 0, None), (Num 1, Some 4), (Num 2, Some 1)], 0, ?r, initialMemory, Num 0) =
      Inr ([(Num 0, None), (Num 1, Some 4), (Num 2, Some 1), (Num 3, Some 0)], 0, ?r,
           initialMemory, Num 0)"
    using advance_fetch [where nextCycle = 6 and index = "Suc (Suc (Suc 0))" and s = "?s"
        and stages = "[(Num 0, None), (Num 1, Some 4), (Num 2, Some 1)]"]
    by (simp add: stalledBranchState_fields stalled_preceding)
  have all: "advanceAll exampleDecoder ?s 6 (enumerate 0 (instructions ?s))
      ([], currentStallCycles ?s, registers ?s, memory ?s, PC ?s) =
      Inr ([(Num 0, None), (Num 1, Some 4), (Num 2, Some 1), (Num 3, Some 0)], 0, ?r,
           initialMemory, Num 0)"
    by (simp add: stalledBranchState_fields a0 a1 a2 a3)
  have cc: "completionCycleOf ?s = 10"
    by (simp add: completionCycleOf_def stalledBranchState_fields)
  have "calculateNextState exampleDecoder ?s =
      Inr (?s\<lparr>currentCycle := 6,
             instructionStages := [(Num 0, None), (Num 1, Some 4), (Num 2, Some 1), (Num 3, Some 0)],
             isRunning := True, isFinished := False, currentStallCycles := 0,
             registers := ?r, memory := initialMemory, PC := Num 0\<rparr>)"
    using all by (simp add: calculateNextState_def Let_def cc stalledBranchState_fields jsStrictEq_def)
  also have "?s\<lparr>currentCycle := 6,
             instructionStages := [(Num 0, None), (Num 1, Some 4), (Num 2, Some 1), (Num 3, Some 0)],
             isRunning := True, isFinished := False, currentStallCycles := 0,
             registers := ?r, memory := initialMemory, PC := Num 0\<rparr> = stalledBranchState"
    by (simp add: stalledBranchState_def noForwarding_def initialState_def)
  finally show ?thesis .
qed

lemma stalledBranch_reached:
  "runSteps exampleDecoder 5 (startSimulation noForwarding stalledBranchProgram) =
     Inr stalledBranchState"
proof -
  have "runSteps exampleDecoder (Suc (Suc (Suc (Suc (Suc 0)))))
      (startSimulation noForwarding stalledBranchProgram) = Inr stalledBranchState"
    by (simp add: stalledBranch_start stalled_tick_2 stalled_tick_3 stalled_tick_4_5
        stalled_tick_6)
  then show ?thesis by (simp add: eval_nat_numeral)
qed

theorem redirect_truncates_witness:
  "runSteps exampleDecoder 1 (startSimulation initialState branchProgram) = Inr branchState \<and>
   isRunning branchState \<and> \<not> isFinished branchState \<and>
   \<not> currentStallCycles branchState > 0 \<and> PC branchState = Num 0 \<and>
   \<not> currentCycle branchState + 1 > completionCycleOf branchState \<and>
   (\<exists>s'. calculateNextState exampleDecoder branchState = Inr s' \<and>
         instructions s' = [''21090003''] \<and> PC s' = Num 2 \<and> currentCycle s' = 3 \<and>
         map_of (instructionStages s') (Num 2) = Some (Some 2)) \<and>
   runSteps exampleDecoder 5 (startSimulation noForwarding stalledBranchProgram) =
     Inr stalledBranchState \<and>
   isRunning stalledBranchState \<and> \<not> isFinished stalledBranchState \<and>
   \<not> currentStallCycles stalledBranchState > 0 \<and> PC stalledBranchState = Num 0 \<and>
   stalls stalledBranchState = [(0, 0), (1, 2), (2, 0), (3, 0)] \<and>
   \<not> currentCycle stalledBranchState + 1 > completionCycleOf stalledBranchState \<and>
   (\<exists>s'. calculateNextState exampleDecoder stalledBranchState = Inr s' \<and>
         instructions s' = [''10000001'', ''20090001''] \<and> PC s' = Num 2 \<and>
         currentCycle s' = 7 \<and>
         map_of (instructionStages s') (Num 2) = Some (Some 4) \<and>
         map_of (instructionStages s') (Num 3) = Some (Some 3))"
proof -
  have h: "isRunning branchState" "\<not> isFinished branchState"
      "\<not> currentStallCycles branchState > 0"
    by (simp_all add: branchState_fields)
  have neq: "\<not> jsStrictEq (Num 2) (PC branchState)"
    by (simp add: branchState_fields jsStrictEq_def)
  have going: "\<not> currentCycle branchState + 1 > completionCycleOf branchState"
    by (simp add: completionCycleOf_def branchState_fields)
  from redirect_truncates [OF h branch_second_tick neq going]
  obtain s' where s': "calculateNextState exampleDecoder branchState = Inr s'"
    "instructions s' =
       (case Num 2 of
          Num pc \<Rightarrow> if 0 \<le> pc then drop (nat pc) (instructions branchState)
                    else drop (length (instructions branchState) - nat (- pc))
                           (instructions branchState)
        | _ \<Rightarrow> instructions branchState)"
    "PC s' = Num 2" "currentCycle s' = currentCycle branchState + 1"
    "\<forall>pc. Num 2 = Num pc \<and>
        \<bar>pc\<bar> + int (length (instructions branchState)) \<le> 9007199254740992 \<longrightarrow>
        (\<forall>k < length (instructions s').
           map_of (instructionStages s') (Num (int k + pc)) =
             Some (stageOrNull (stageCount branchState)
                     (currentCycle branchState + 1 - int k - 1 -
                      sum_list (map (stallAt (stalls branchState)) [0 ..< nat (int k + pc)]))))"
    by (elim exE conjE) (rule that; assumption)
  have i: "instructions s' = [''21090003'']"
    using s'(2) by (simp add: branchState_fields)
  have zero: "stallAt [(0, 0), (Suc 0, 0), (2, 0)] = (\<lambda>i. 0)"
    by (auto simp: stallAt_def fun_eq_iff)
  from s'(5) i have "map_of (instructionStages s') (Num (int 0 + 2)) =
      Some (stageOrNull (stageCount branchState) (currentCycle branchState + 1 - int 0 - 1 -
              sum_list (map (stallAt (stalls branchState)) [0 ..< nat (int 0 + 2)])))"
    by (simp add: branchState_fields)
  then have e: "map_of (instructionStages s') (Num 2) = Some (Some 2)"
    by (simp add: branchState_fields zero stageOrNull_def)
  have first: "\<exists>s'. calculateNextState exampleDecoder branchState = Inr s' \<and>
         instructions s' = [''21090003''] \<and> PC s' = Num 2 \<and> currentCycle s' = 3 \<and>
         map_of (instructionStages s') (Num 2) = Some (Some 2)"
    using s'(1,3,4) i e by (simp add: branchState_fields)
  have h2: "isRunning stalledBranchState" "\<not> isFinished stalledBranchState"
      "\<not> currentStallCycles stalledBranchState > 0"
    by (simp_all add: stalledBranchState_fields)
  have neq2: "\<not> jsStrictEq (Num 2) (PC stalledBranchState)"
    by (simp add: stalledBranchState_fields jsStrictEq_def)
  have going2: "\<not> currentCycle stalledBranchState + 1 > completionCycleOf stalledBranchState"
    by (simp add: completionCycleOf_def stalledBranchState_fields)
  from redirect_truncates [OF h2 stalledBranch_tick neq2 going2]
  obtain t' where t': "calculateNextState exampleDecoder stalledBranchState = Inr t'"
    "instructions t' =
       (case Num 2 of
          Num pc \<Rightarrow> if 0 \<le> pc then drop (nat pc) (instructions stalledBranchState)
                    else drop (length (instructions stalledBranchState) - nat (- pc))
                           (instructions stalledBranchState)
        | _ \<Rightarrow> instructions stalledBranchState)"
    "PC t' = Num 2" "currentCycle t' = currentCycle stalledBranchState + 1"
    "\<forall>pc. Num 2 = Num pc \<and>
        \<bar>pc\<bar> + int (length (instructions stalledBranchState)) \<le> 9007199254740992 \<longrightarrow>
        (\<forall>k < length (instructions t').
           map_of (instructionStages t') (Num (int k + pc)) =
             Some (stageOrNull (stageCount stalledBranchState)
                     (currentCycle stalledBranchState + 1 - int k - 1 -
                      sum_list (map (stallAt (stalls stalledBranchState))
                                  [0 ..< nat (int k + pc)]))))"
    by (elim exE conjE) (rule that; assumption)
  have i2: "instructions t' = [''10000001'', ''20090001'']"
    using t'(2) by (simp add: stalledBranchState_fields)
  from t'(5) i2 have all: "\<forall>k < 2.
           map_of (instructionStages t') (Num (int k + 2)) =
             Some (stageOrNull (stageCount stalledBranchState)
                     (currentCycle stalledBranchState + 1 - int k - 1 -
                      sum_list (map (stallAt (stalls stalledBranchState))
                                  [0 ..< nat (int k + 2)])))"
    by (simp add: stalledBranchState_fields)
  from all have "map_of (instructionStages t') (Num (int 0 + 2)) =
             Some (stageOrNull (stageCount stalledBranchState)
                     (currentCycle stalledBranchState + 1 - int 0 - 1 -
                      sum_list (map (stallAt (stalls stalledBranchState))
                                  [0 ..< nat (int 0 + 2)])))"
    by (intro all [rule_format]) simp
  then have e2: "map_of (instructionStages t') (Num 2) = Some (Some 4)"
    by (simp add: stalledBranchState_fields stalled_sums stageOrNull_def)
  from all have "map_of (instructionStages t') (Num (int 1 + 2)) =
             Some (stageOrNull (stageCount stalledBranchState)
                     (currentCycle stalledBranchState + 1 - int 1 - 1 -
                      sum_list (map (stallAt (stalls stalledBranchState))
                                  [0 ..< nat (int 1 + 2)])))"
    by (intro all [rule_format]) simp
  then have e3: "map_of (instructionStages t') (Num 3) = Some (Some 3)"
    by (simp add: stalledBranchState_fields stalled_sums stageOrNull_def)
  have second: "\<exists>s'. calculateNextState exampleDecoder stalledBranchState = Inr s' \<and>
         instructions s' = [''10000001'', ''20090001''] \<and> PC s' = Num 2 \<and>
         currentCycle s' = 7 \<and>
         map_of (instructionStages s') (Num 2) = Some (Some 4) \<and>
         map_of (instructionStages s') (Num 3) = Some (Some 3)"
    using t'(1,3,4) i2 e2 e3 by (simp add: stalledBranchState_fields)
  show ?thesis
    using branch_reached h going first stalledBranch_reached h2 going2 second
    by (simp add: branchState_fields stalledBranchState_fields)
qed

text \<open>
  Claim C6 as stated fails. One tick after the start of \<open>beq $zero, $zero, -3\<close>,
  \<open>addi $t0, $zero, 2\<close>, \<open>addi $t1, $t0, 3\<close> the branch is in ID; in the next tick it is
  taken in EX and yields the program counter \<open>0 + 1 - 3 = -2\<close>. The new instruction
  sequence is \<open>instructions.slice(-2)\<close>, the last two instructions of the old sequence:
  it starts at the old place 1, not at the new program counter, and its stage entries
  are keyed \<open>-2\<close> and \<open>-1\<close>.
\<close>

theorem backward_branch_keeps_tail:
  "runSteps exampleDecoder 1 (startSimulation initialState backwardProgram) = Inr backwardState \<and>
   instructions backwardState = [''1000fffd'', ''20080002'', ''21090003''] \<and>
   PC backwardState = Num 0 \<and>
   calculateNextState exampleDecoder backwardState =
     Inr (backwardState\<lparr>instructions := [''20080002'', ''21090003''],
            currentCycle := 3,
            instructionStages := [(Num (- 2), Some 2), (Num (- 1), Some 1)],
            PC := Num (- 2)\<rparr>)"
proof -
  have h: "isRunning backwardState" "\<not> isFinished backwardState"
      "\<not> currentStallCycles backwardState > 0"
    by (simp_all add: backwardState_fields)
  have neq: "\<not> jsStrictEq (Num (- 2)) (PC backwardState)"
    by (simp add: backwardState_fields jsStrictEq_def)
  have going: "\<not> currentCycle backwardState + 1 > completionCycleOf backwardState"
    by (simp add: completionCycleOf_def backwardState_fields)
  have sl: "jsSlice (Num (- 2)) (instructions backwardState) = [''20080002'', ''21090003'']"
    by (simp add: backwardState_fields jsSlice_def sliceStart_def)
  have st: "redirectStages backwardState (currentCycle backwardState + 1) (Num (- 2))
      (Suc (Suc 0)) = [(Num (- 2), Some 2), (Num (- 1), Some 1)]"
    by (simp add: redirectStages_two backwardState_fields jsAdd_def roundDouble_def
        no_preceding_stalls stageOrNull_def)
  have "calculateNextState exampleDecoder backwardState =
      Inr (backwardState\<lparr>instructions := [''20080002'', ''21090003''],
            currentCycle := 3,
            instructionStages := [(Num (- 2), Some 2), (Num (- 1), Some 1)],
            isRunning := True, isFinished := False, currentStallCycles := 0,
            registers := initialRegisters, memory := initialMemory,
            PC := Num (- 2)\<rparr>)"
    using redirect_state [OF h backward_second_tick neq going]
    by (simp add: sl st) (simp add: backwardState_fields)
  also have "backwardState\<lparr>instructions := [''20080002'', ''21090003''],
            currentCycle := 3,
            instructionStages := [(Num (- 2), Some 2), (Num (- 1), Some 1)],
            isRunning := True, isFinished := False, currentStallCycles := 0,
            registers := initialRegisters, memory := initialMemory,
            PC := Num (- 2)\<rparr> =
       backwardState\<lparr>instructions := [''20080002'', ''21090003''],
            currentCycle := 3,
            instructionStages := [(Num (- 2), Some 2), (Num (- 1), Some 1)],
            PC := Num (- 2)\<rparr>"
    by (simp add: backwardState_def branchState_def initialState_def)
  finally show ?thesis
    using backward_reached by (simp add: backwardState_fields)
qed

text \<open>
  Claim C1, as amended. In a step of a running, unfinished state with no pending stall,
  \<open>finished\<close> becomes true exactly when the next cycle number exceeds
  \<open>completionCycle\<close> (the instruction count plus the stage count minus 1 plus the sum
  of the stall table, or 0 for an empty instruction sequence), \<open>running\<close> becomes the
  negation of \<open>finished\<close>, and a step that finishes stores \<open>completionCycle\<close> itself
  as the cycle number and leaves \<open>completionCycle\<close> as it was: a finished state has
  the cycle \<open>completionCycle\<close>, not a greater one.
\<close>

theorem finish_detection:
  assumes "isRunning s" and "\<not> isFinished s" and "\<not> currentStallCycles s > 0"
    and "calculateNextState tr s = Inr s'"
  shows "(isFinished s' \<longleftrightarrow> currentCycle s + 1 > completionCycleOf s) \<and>
         (isRunning s' \<longleftrightarrow> \<not> isFinished s') \<and>
         (isFinished s' \<longrightarrow>
            currentCycle s' = completionCycleOf s \<and> completionCycleOf s' = completionCycleOf s)"
  using assms
  by (auto simp: calculateNextState_def Let_def completionCycleOf_def
      split: sum.splits prod.splits if_splits)

lemma single_parts:
  "splitSpace (removeCommas (exampleDecoder ''20080005'')) = [''addi'', ''$t0'', ''$zero'', ''5'']"
  by code_simp

lemma single_exec:
  "\<exists>regs' mem'. \<forall>cyc. executeMIPSInstruction exampleDecoder ''20080005'' regs mem pc stage fwds cyc =
     Inr (regs', mem', Undefined)"
  by (cases stage) (simp_all add: executeMIPSInstruction_def single_parts Let_def execEX_def execI_def
      execMEM_def)

lemma single_start:
  "\<exists>s. startSimulation initialState singleProgram = Inr s \<and>
     instructions s = singleProgram \<and> stalls s = [(0, 0)] \<and> stageCount s = 5 \<and>
     currentStallCycles s = 0 \<and> PC s = Num 0 \<and> isRunning s \<and> \<not> isFinished s \<and>
     currentCycle s = 1"
  by (simp add: startSimulation_def singleProgram_def detectHazards_def initTables_def Let_def
      initialState_def DEFAULT_STAGE_COUNT_def)

lemma single_advance:
  assumes "stalls s = [(0, 0)]"
  shows "\<exists>stages regs' mem'.
     advanceInstruction exampleDecoder s nc 0 ''20080005'' ([], 0, registers s, memory s, PC s) =
       Inr (stages, 0, regs', mem', PC s)"
proof -
  let ?e = "case map_of (forwardings s) 0 of Some es \<Rightarrow> es | None \<Rightarrow> []"
  let ?x = "\<lambda>stage. executeMIPSInstruction exampleDecoder ''20080005'' (registers s) (memory s)
      (PC s) stage ?e"
  obtain r2 m2 where e2: "\<And>cyc. ?x StageEX cyc = Inr (r2, m2, Undefined)"
    using single_exec by blast
  obtain r3 m3 where e3: "\<And>cyc. ?x StageMEM cyc = Inr (r3, m3, Undefined)"
    using single_exec by blast
  obtain r4 m4 where e4: "\<And>cyc. ?x StageWB cyc = Inr (r4, m4, Undefined)"
    using single_exec by blast
  show ?thesis
    using assms
    by (simp add: advanceInstruction_def calculatePrecedingStalls_def Let_def e2 e3 e4)
qed

lemma single_step:
  assumes "instructions s = singleProgram" "stalls s = [(0, 0)]" "stageCount s = 5"
    "currentStallCycles s = 0" "PC s = Num 0" "isRunning s" "\<not> isFinished s"
  shows "\<exists>s'. calculateNextState exampleDecoder s = Inr s' \<and>
     instructions s' = singleProgram \<and> stalls s' = [(0, 0)] \<and> stageCount s' = 5 \<and>
     currentStallCycles s' = 0 \<and> PC s' = Num 0 \<and>
     (if currentCycle s + 1 > 5
      then isFinished s' \<and> \<not> isRunning s' \<and> currentCycle s' = 5
      else \<not> isFinished s' \<and> isRunning s' \<and> currentCycle s' = currentCycle s + 1)"
proof -
  obtain stages regs' mem' where adv:
    "advanceInstruction exampleDecoder s (currentCycle s + 1) 0 ''20080005''
       ([], 0, registers s, memory s, PC s) = Inr (stages, 0, regs', mem', PC s)"
    using single_advance [OF assms(2)] by blast
  have all: "advanceAll exampleDecoder s (currentCycle s + 1) (enumerate 0 (instructions s))
       ([], currentStallCycles s, registers s, memory s, PC s) = Inr (stages, 0, regs', mem', PC s)"
    using assms adv by (simp add: singleProgram_def)
  have cc: "completionCycleOf s = 5"
    using assms by (simp add: completionCycleOf_def singleProgram_def)
  show ?thesis
    using assms all cc by (simp add: calculateNextState_def Let_def jsStrictEq_def)
qed

lemma single_run:
  "n \<le> 4 \<Longrightarrow> \<exists>s. runSteps exampleDecoder n (startSimulation initialState singleProgram) = Inr s \<and>
     instructions s = singleProgram \<and> stalls s = [(0, 0)] \<and> stageCount s = 5 \<and>
     currentStallCycles s = 0 \<and> PC s = Num 0 \<and> isRunning s \<and> \<not> isFinished s \<and>
     currentCycle s = 1 + int n"
proof (induction n)
  case 0
  then show ?case using single_start by simp
next
  case (Suc n)
  then obtain s where s: "runSteps exampleDecoder n (startSimulation initialState singleProgram) = Inr s"
     "instructions s = singleProgram" "stalls s = [(0, 0)]" "stageCount s = 5"
     "currentStallCycles s = 0" "PC s = Num 0" "isRunning s" "\<not> isFinished s"
     "currentCycle s = 1 + int n"
    by auto
  from single_step [OF s(2-8)] obtain s' where s': "calculateNextState exampleDecoder s = Inr s'"
     "instructions s' = singleProgram" "stalls s' = [(0, 0)]" "stageCount s' = 5"
     "currentStallCycles s' = 0" "PC s' = Num 0"
     "if currentCycle s + 1 > 5
      then isFinished s' \<and> \<not> isRunning s' \<and> currentCycle s' = 5
      else \<not> isFinished s' \<and> isRunning s' \<and> currentCycle s' = currentCycle s + 1"
    by blast
  from Suc.prems s(9) have "\<not> currentCycle s + 1 > 5" by simp
  with s' s show ?case by simp
qed

lemma single_finished:
  "\<exists>s4 s5. runSteps exampleDecoder 4 (startSimulation initialState singleProgram) = Inr s4 \<and>
     calculateNextState exampleDecoder s4 = Inr s5 \<and>
     isRunning s4 \<and> \<not> isFinished s4 \<and> currentStallCycles s4 = 0 \<and> currentCycle s4 = 5 \<and>
     completionCycleOf s4 = 5 \<and>
     isFinished s5 \<and> \<not> isRunning s5 \<and> currentCycle s5 = 5 \<and> completionCycleOf s5 = 5"
proof -
  from single_run [of 4] obtain s where s:
     "runSteps exampleDecoder 4 (startSimulation initialState singleProgram) = Inr s"
     "instructions s = singleProgram" "stalls s = [(0, 0)]" "stageCount s = 5"
     "currentStallCycles s = 0" "PC s = Num 0" "isRunning s" "\<not> isFinished s"
     "currentCycle s = 5"
    by auto
  from single_step [OF s(2-8)] s(9) obtain s' where s': "calculateNextState exampleDecoder s = Inr s'"
     "instructions s' = singleProgram" "stalls s' = [(0, 0)]" "stageCount s' = 5"
     "isFinished s'" "\<not> isRunning s'" "currentCycle s' = 5"
    by auto
  show ?thesis
    using s s' by (auto simp: completionCycleOf_def singleProgram_def)
qed

lemma runSteps_5:
  "runSteps tr 5 r = (case runSteps tr 4 r of Inl e \<Rightarrow> Inl e | Inr s \<Rightarrow> calculateNextState tr s)"
  using runSteps.simps(2) [of tr 4 r] by simp

theorem finish_detection_witness:
  "isRunning (stateAfter exampleDecoder 4 initialState singleProgram) \<and>
   \<not> isFinished (stateAfter exampleDecoder 4 initialState singleProgram) \<and>
   \<not> currentStallCycles (stateAfter exampleDecoder 4 initialState singleProgram) > 0 \<and>
   calculateNextState exampleDecoder (stateAfter exampleDecoder 4 initialState singleProgram) =
     Inr (stateAfter exampleDecoder 5 initialState singleProgram) \<and>
   currentCycle (stateAfter exampleDecoder 4 initialState singleProgram) + 1 >
     completionCycleOf (stateAfter exampleDecoder 4 initialState singleProgram) \<and>
   isFinished (stateAfter exampleDecoder 5 initialState singleProgram) \<and>
   \<not> isRunning (stateAfter exampleDecoder 5 initialState singleProgram) \<and>
   currentCycle (stateAfter exampleDecoder 5 initialState singleProgram) =
     completionCycleOf (stateAfter exampleDecoder 4 initialState singleProgram)"
proof -
  from single_finished obtain s4 s5 where
    r4: "runSteps exampleDecoder 4 (startSimulation initialState singleProgram) = Inr s4"
    and st: "calculateNextState exampleDecoder s4 = Inr s5"
    and pre: "isRunning s4" "\<not> isFinished s4" "currentStallCycles s4 = 0" "currentCycle s4 = 5"
      "completionCycleOf s4 = 5"
    by blast
  have r5: "runSteps exampleDecoder 5 (startSimulation initialState singleProgram) = Inr s5"
    by (simp add: runSteps_5 r4 st)
  have a4: "stateAfter exampleDecoder 4 initialState singleProgram = s4"
    and a5: "stateAfter exampleDecoder 5 initialState singleProgram = s5"
    by (simp_all add: stateAfter_def r4 r5)
  have nostall: "\<not> currentStallCycles s4 > 0" using pre by simp
  from finish_detection [OF pre(1,2) nostall st] pre st
  show ?thesis by (simp add: a4 a5)
qed

text \<open>
  Claim C1 as stated fails. The program \<open>addi $t0, $zero, 5\<close> alone has
  \<open>completionCycle = 1 + 5 - 1 = 5\<close>. Five ticks after its start the state is
  finished, and its cycle number is 5: \<open>finished\<close> holds while the cycle is not
  greater than \<open>completionCycle\<close>.
\<close>

theorem finished_cycle_not_beyond:
  "\<not> raises (runSteps exampleDecoder 5 (startSimulation initialState singleProgram)) \<and>
   isFinished (stateAfter exampleDecoder 5 initialState singleProgram) \<and>
   currentCycle (stateAfter exampleDecoder 5 initialState singleProgram) = 5 \<and>
   completionCycleOf (stateAfter exampleDecoder 5 initialState singleProgram) = 5 \<and>
   \<not> (isFinished (stateAfter exampleDecoder 5 initialState singleProgram) \<longleftrightarrow>
      currentCycle (stateAfter exampleDecoder 5 initialState singleProgram) >
      completionCycleOf (stateAfter exampleDecoder 5 initialState singleProgram))"
proof -
  from single_finished obtain s4 s5 where
    r4: "runSteps exampleDecoder 4 (startSimulation initialState singleProgram) = Inr s4"
    and st: "calculateNextState exampleDecoder s4 = Inr s5"
    and fin: "isFinished s5" "currentCycle s5 = 5" "completionCycleOf s5 = 5"
    by blast
  have r5: "runSteps exampleDecoder 5 (startSimulation initialState singleProgram) = Inr s5"
    by (simp add: runSteps_5 r4 st)
  show ?thesis using fin by (simp add: stateAfter_def raises_def r5)
qed

end
